theory Spec2Isabelle
  imports Main
begin

section \<open>Policy conditions of kubernetes-nmstate (pkg/policyconditions/conditions.go)\<close>

subsection \<open>Conditions and condition lists (api/shared)\<close>

text \<open>
  A condition as the CRD schema lists it: type, status, reason, message and the two
  timestamps. \<open>corev1.ConditionStatus\<close> is the tri-state of Kubernetes; condition
  types and reasons are Go strings (\<open>ConditionType\<close>, \<open>ConditionReason\<close>).
  A \<open>metav1.Time\<close> is a point on a discrete clock.
\<close>

type_synonym time = nat

datatype ConditionStatus = ConditionTrue | ConditionFalse | ConditionUnknown

type_synonym ConditionType = string
type_synonym ConditionReason = string

record Condition =
  Type :: ConditionType
  Status :: ConditionStatus
  Reason :: ConditionReason
  Message :: string
  LastHeartbeatTime :: time
  LastTransitionTime :: time

type_synonym ConditionList = "Condition list"

text \<open>
  Modelled from the spec: the constants of api/shared naming the condition types and
  the reasons are not part of the sources at hand; their string values are the ones the
  spec lists as the recognised \<open>type\<close> and \<open>reason\<close> values.
\<close>

definition NodeNetworkConfigurationPolicyConditionAvailable :: ConditionType where
  "NodeNetworkConfigurationPolicyConditionAvailable = ''Available''"

definition NodeNetworkConfigurationPolicyConditionDegraded :: ConditionType where
  "NodeNetworkConfigurationPolicyConditionDegraded = ''Degraded''"

definition NodeNetworkConfigurationPolicyConditionConfigurationProgressing :: ConditionReason where
  "NodeNetworkConfigurationPolicyConditionConfigurationProgressing = ''ConfigurationProgressing''"

definition NodeNetworkConfigurationPolicyConditionSuccessfullyConfigured :: ConditionReason where
  "NodeNetworkConfigurationPolicyConditionSuccessfullyConfigured = ''SuccessfullyConfigured''"

definition NodeNetworkConfigurationPolicyConditionConfigurationNoMatchingNode :: ConditionReason where
  "NodeNetworkConfigurationPolicyConditionConfigurationNoMatchingNode = ''ConfigurationNoMatchingNode''"

definition NodeNetworkConfigurationPolicyConditionFailedToConfigure :: ConditionReason where
  "NodeNetworkConfigurationPolicyConditionFailedToConfigure = ''FailedToConfigure''"

text \<open>
  Modelled from the spec: \<open>ConditionList.Find\<close> and \<open>ConditionList.Set\<close> live in
  api/shared, which is not part of the sources at hand. The spec: the list is keyed by
  type; \<open>Set\<close> updates status, reason, message and heartbeat of the condition of that
  type in place, moving the transition time only when the status differs, and appends
  a new condition with both timestamps set to now when there is none. The reading of
  the clock that \<open>Set\<close> makes is the argument \<open>now\<close>.
\<close>

fun ConditionList_Find :: "ConditionList \<Rightarrow> ConditionType \<Rightarrow> Condition option" where
  "ConditionList_Find [] conditionType = None"
| "ConditionList_Find (c # cs) conditionType =
     (if Type c = conditionType then Some c else ConditionList_Find cs conditionType)"

fun ConditionList_Set ::
  "time \<Rightarrow> ConditionList \<Rightarrow> ConditionType \<Rightarrow> ConditionStatus \<Rightarrow> ConditionReason \<Rightarrow> string
    \<Rightarrow> ConditionList" where
  "ConditionList_Set now [] conditionType status reason message =
     [\<lparr>Type = conditionType, Status = status, Reason = reason, Message = message,
       LastHeartbeatTime = now, LastTransitionTime = now\<rparr>]"
| "ConditionList_Set now (c # cs) conditionType status reason message =
     (if Type c = conditionType
      then c\<lparr>Status := status, Reason := reason, Message := message,
             LastHeartbeatTime := now,
             LastTransitionTime := (if Status c \<noteq> status then now else LastTransitionTime c)\<rparr> # cs
      else c # ConditionList_Set now cs conditionType status reason message)"

text \<open>Reading one attribute of the condition of a given type, when the list has one.\<close>

definition statusOf :: "ConditionList \<Rightarrow> ConditionType \<Rightarrow> ConditionStatus option" where
  "statusOf conditions conditionType = map_option Status (ConditionList_Find conditions conditionType)"

definition reasonOf :: "ConditionList \<Rightarrow> ConditionType \<Rightarrow> ConditionReason option" where
  "reasonOf conditions conditionType = map_option Reason (ConditionList_Find conditions conditionType)"

definition messageOf :: "ConditionList \<Rightarrow> ConditionType \<Rightarrow> string option" where
  "messageOf conditions conditionType = map_option Message (ConditionList_Find conditions conditionType)"

subsection \<open>The four verdicts (conditions.go, lines 26 to 88)\<close>

text \<open>
  Each helper calls \<open>conditions.Set\<close> twice on the list it is given, first for the
  Degraded condition, then for the Available one. Both calls are given the same
  reading of the clock; the timestamps play no part in what follows. The log lines
  are not modelled.
\<close>

definition SetPolicyProgressing :: "time \<Rightarrow> ConditionList \<Rightarrow> string \<Rightarrow> ConditionList" where
  "SetPolicyProgressing now conditions message =
     ConditionList_Set now
       (ConditionList_Set now conditions
          NodeNetworkConfigurationPolicyConditionDegraded
          ConditionUnknown
          NodeNetworkConfigurationPolicyConditionConfigurationProgressing
          '''')
       NodeNetworkConfigurationPolicyConditionAvailable
       ConditionUnknown
       NodeNetworkConfigurationPolicyConditionConfigurationProgressing
       message"

definition SetPolicySuccess :: "time \<Rightarrow> ConditionList \<Rightarrow> string \<Rightarrow> ConditionList" where
  "SetPolicySuccess now conditions message =
     ConditionList_Set now
       (ConditionList_Set now conditions
          NodeNetworkConfigurationPolicyConditionDegraded
          ConditionFalse
          NodeNetworkConfigurationPolicyConditionSuccessfullyConfigured
          '''')
       NodeNetworkConfigurationPolicyConditionAvailable
       ConditionTrue
       NodeNetworkConfigurationPolicyConditionSuccessfullyConfigured
       message"

definition SetPolicyNotMatching :: "time \<Rightarrow> ConditionList \<Rightarrow> string \<Rightarrow> ConditionList" where
  "SetPolicyNotMatching now conditions message =
     ConditionList_Set now
       (ConditionList_Set now conditions
          NodeNetworkConfigurationPolicyConditionDegraded
          ConditionFalse
          NodeNetworkConfigurationPolicyConditionConfigurationNoMatchingNode
          message)
       NodeNetworkConfigurationPolicyConditionAvailable
       ConditionTrue
       NodeNetworkConfigurationPolicyConditionConfigurationNoMatchingNode
       message"

definition SetPolicyFailedToConfigure :: "time \<Rightarrow> ConditionList \<Rightarrow> string \<Rightarrow> ConditionList" where
  "SetPolicyFailedToConfigure now conditions message =
     ConditionList_Set now
       (ConditionList_Set now conditions
          NodeNetworkConfigurationPolicyConditionDegraded
          ConditionTrue
          NodeNetworkConfigurationPolicyConditionFailedToConfigure
          message)
       NodeNetworkConfigurationPolicyConditionAvailable
       ConditionFalse
       NodeNetworkConfigurationPolicyConditionFailedToConfigure
       ''''"

subsection \<open>Formatting (fmt.Sprintf with the verb %d)\<close>

text \<open>
  The decimal digits of a natural number, most significant first, and Go's \<open>%d\<close>
  of an \<open>int\<close>: a minus sign before the digits of a negative number.
\<close>

fun digits :: "nat \<Rightarrow> string" where
  "digits n =
     (if n < 10 then [char_of (48 + n)]
      else digits (n div 10) @ [char_of (48 + n mod 10)])"

declare digits.simps [simp del]

definition fmt_d :: "int \<Rightarrow> string" where
  "fmt_d i = (if i < 0 then CHR ''-'' # digits (nat (- i)) else digits (nat i))"

subsection \<open>Policies, enactments, nodes\<close>

text \<open>
  The objects of the API as far as this package reads them. Of a policy: its name,
  generation (an \<open>int64\<close>, only ever compared for equality here), the concurrency
  token of the store, the spec (opaque here) and the status with its conditions. Of an
  enactment: the node and policy it belongs to, and its status (conditions and the
  policy generation it was computed for, \<open>status.policyGeneration\<close> in the CRD).
\<close>

record NamespacedName =
  Namespace :: string
  Name :: string

record PolicyStatus =
  Conditions :: ConditionList

record Policy =
  PolicyName :: string
  Generation :: int
  ResourceVersion :: string
  PolicySpec :: string
  PolicyStatus :: PolicyStatus

record Enactment =
  NodeName :: string
  EnactmentPolicy :: string
  PolicyGeneration :: int
  EnactmentConditions :: ConditionList

record Node =
  NodeMetaName :: string
  agentScheduled :: bool

datatype LabelKey = EnactmentPolicyLabel | OtherLabel string

datatype ListOption = MatchingLabels "(LabelKey \<times> string) list"

subsection \<open>Counting enactments (pkg/enactmentstatus/conditions)\<close>

text \<open>
  The tally that \<open>enactmentconditions.Count\<close> returns, read in conditions.go through
  the methods \<open>Available()\<close>, \<open>Failed()\<close>, \<open>NotMatching()\<close>, \<open>Aborted()\<close> and
  \<open>Matching()\<close>, each a Go \<open>int\<close>. The counts are numbers of list elements, far from
  the range where a 64-bit \<open>int\<close> wraps, so they are unbounded integers here.
\<close>

record EnactmentCount =
  Available :: int
  Failed :: int
  NotMatching :: int
  Aborted :: int
  Matching :: int
  Progressing :: int

datatype Bucket =
  BucketAvailable | BucketFailed | BucketNotMatching | BucketAborted | BucketProgressing

text \<open>
  Modelled from the spec: \<open>enactmentconditions.Count\<close> is not part of the sources at
  hand. The spec: every enactment whose generation equals the policy's is put in
  exactly one bucket by the reason of its Available-type condition (available also
  asks for status True; anything else, a missing condition too, is progressing);
  enactments of another generation are left out of every count; matching is the
  number of enactments counted minus the not-matching ones.
\<close>

definition classify :: "Enactment \<Rightarrow> Bucket" where
  "classify enactment =
     (case ConditionList_Find (EnactmentConditions enactment) ''Available'' of
        None \<Rightarrow> BucketProgressing
      | Some condition \<Rightarrow>
          if Reason condition = ''SuccessfullyConfigured'' \<and> Status condition = ConditionTrue
          then BucketAvailable
          else if Reason condition = ''FailedToConfigure'' then BucketFailed
          else if Reason condition = ''ConfigurationNoMatchingNode'' then BucketNotMatching
          else if Reason condition = ''ConfigurationAborted'' then BucketAborted
          else BucketProgressing)"

definition current :: "Enactment list \<Rightarrow> int \<Rightarrow> Enactment list" where
  "current enactments policyGeneration =
     filter (\<lambda>enactment. PolicyGeneration enactment = policyGeneration) enactments"

definition inBucket :: "Bucket \<Rightarrow> Enactment list \<Rightarrow> int" where
  "inBucket bucket enactments =
     int (length (filter (\<lambda>enactment. classify enactment = bucket) enactments))"

definition Count :: "Enactment list \<Rightarrow> int \<Rightarrow> EnactmentCount" where
  "Count enactments policyGeneration =
     (let counted = current enactments policyGeneration in
      \<lparr>Available = inBucket BucketAvailable counted,
       Failed = inBucket BucketFailed counted,
       NotMatching = inBucket BucketNotMatching counted,
       Aborted = inBucket BucketAborted counted,
       Matching = int (length counted) - inBucket BucketNotMatching counted,
       Progressing = inBucket BucketProgressing counted\<rparr>)"

subsection \<open>Errors, the client and the world outside\<close>

text \<open>
  A Go \<open>error\<close> is either a status error of the API, with its reason, or an error
  wrapped with a message by \<open>errors.Wrap\<close>. An error that carries no status of the
  API has the reason unknown, which is what the library reports for it.
\<close>

datatype StatusReason =
  StatusReasonConflict | StatusReasonNotFound | StatusReasonForbidden
  | StatusReasonTimeout | StatusReasonUnknown

datatype error = StatusError StatusReason string | Wrap error string

text \<open>
  \<open>apierrors.IsConflict\<close> belongs to the Kubernetes library. Whether it recognises
  a conflict inside a wrapped error depends on the version of that library, so the
  functions below take the predicate as the argument \<open>IsConflict\<close>. The instance
  that looks through \<open>Wrap\<close> is used to run examples.
\<close>

fun IsConflict_unwrapping :: "error \<Rightarrow> bool" where
  "IsConflict_unwrapping (StatusError reason message) = (reason = StatusReasonConflict)"
| "IsConflict_unwrapping (Wrap err message) = IsConflict_unwrapping err"

text \<open>
  The client reads and writes a store that other writers change at any time. The
  state of everything outside the function is a value of type \<open>'w\<close>; each call of the
  client takes the state in which it happens and returns its result with the state
  afterwards. \<open>Get\<close> fetches a policy by key, \<open>ListEnactments\<close> is \<open>cli.List\<close> on
  enactments with list options, \<open>ListNodes\<close> is the listing that node eligibility
  relies on, and \<open>StatusUpdate\<close> is \<open>cli.Status().Update\<close>, which returns no error
  when the write is accepted.
\<close>

record 'w Client =
  Get :: "NamespacedName \<Rightarrow> 'w \<Rightarrow> (error + Policy) \<times> 'w"
  ListEnactments :: "ListOption \<Rightarrow> 'w \<Rightarrow> (error + Enactment list) \<times> 'w"
  ListNodes :: "'w \<Rightarrow> (error + Node list) \<times> 'w"
  StatusUpdate :: "Policy \<Rightarrow> 'w \<Rightarrow> error option \<times> 'w"

text \<open>
  Modelled from the spec: \<open>node.NodesRunningNmstate\<close> (pkg/node) is not part of the
  sources at hand. The spec: it returns the nodes expected to run the node agent,
  leaving out the nodes where the agent is not scheduled, and hands on any error of
  the node listing.
\<close>

definition NodesRunningNmstate :: "'w Client \<Rightarrow> 'w \<Rightarrow> (error + Node list) \<times> 'w" where
  "NodesRunningNmstate cli w =
     (case ListNodes cli w of
        (Inl err, w') \<Rightarrow> (Inl err, w')
      | (Inr nodes, w') \<Rightarrow> (Inr (filter agentScheduled nodes), w'))"

subsection \<open>Retrying on conflict (client-go, util/retry)\<close>

text \<open>
  \<open>retry.OnError\<close> runs \<open>fn\<close> at most \<open>Steps\<close> times: it stops with no error as
  soon as \<open>fn\<close> returns none, stops with the error as soon as \<open>fn\<close> returns one that
  is not retriable, and when the steps are used up returns the last retriable error.
  \<open>retry.DefaultRetry\<close> has five steps. The pauses between the runs are not modelled.
\<close>

primrec OnError ::
  "nat \<Rightarrow> (error \<Rightarrow> bool) \<Rightarrow> ('s \<Rightarrow> error option \<times> 's) \<Rightarrow> error option \<Rightarrow> 's
    \<Rightarrow> error option \<times> 's" where
  "OnError 0 retriable fn lastErr s = (lastErr, s)"
| "OnError (Suc steps) retriable fn lastErr s =
     (case fn s of
        (None, s') \<Rightarrow> (None, s')
      | (Some err, s') \<Rightarrow>
          if retriable err then OnError steps retriable fn (Some err) s'
          else (Some err, s'))"

definition DefaultRetry :: nat where
  "DefaultRetry = 5"

definition RetryOnConflict ::
  "(error \<Rightarrow> bool) \<Rightarrow> nat \<Rightarrow> ('s \<Rightarrow> error option \<times> 's) \<Rightarrow> 's \<Rightarrow> error option \<times> 's" where
  "RetryOnConflict IsConflict backoff fn s = OnError backoff IsConflict fn None s"

subsection \<open>Update (conditions.go, lines 90 to 153)\<close>

text \<open>
  Lines 121 to 140 of the function passed to \<open>RetryOnConflict\<close>: from the counts and
  the number of nodes running the handler to the new conditions of the policy.
\<close>

definition Update_setConditions ::
  "time \<Rightarrow> ConditionList \<Rightarrow> EnactmentCount \<Rightarrow> int \<Rightarrow> ConditionList" where
  "Update_setConditions now conditions enactmentsCount numberOfNmstateNodes =
     (let numberOfFinishedEnactments =
            Available enactmentsCount + Failed enactmentsCount
              + NotMatching enactmentsCount + Aborted enactmentsCount
      in
      if numberOfFinishedEnactments < numberOfNmstateNodes then
        SetPolicyProgressing now conditions
          (''Policy is progressing '' @ fmt_d numberOfFinishedEnactments @ ''/''
             @ fmt_d numberOfNmstateNodes @ '' nodes finished'')
      else if Matching enactmentsCount = 0 then
        SetPolicyNotMatching now conditions ''Policy does not match any node''
      else if Failed enactmentsCount > 0 \<or> Aborted enactmentsCount > 0 then
        SetPolicyFailedToConfigure now conditions
          (fmt_d (Failed enactmentsCount) @ ''/'' @ fmt_d (Matching enactmentsCount)
             @ '' nodes failed to configure''
             @ (if Aborted enactmentsCount > 0
                then '', '' @ fmt_d (Aborted enactmentsCount) @ '' nodes aborted configuration''
                else []))
      else
        SetPolicySuccess now conditions
          (fmt_d (Available enactmentsCount) @ ''/'' @ fmt_d (Available enactmentsCount)
             @ '' nodes successfully configured''))"

text \<open>
  The function passed to \<open>RetryOnConflict\<close>, one attempt: fetch the policy, list its
  enactments, list the nodes running the handler, count, set the conditions of the
  fetched policy and write its status. \<open>Now\<close> reads the clock in a state of the
  world. The log lines are not modelled.
\<close>

definition Update_fn ::
  "('w \<Rightarrow> time) \<Rightarrow> 'w Client \<Rightarrow> NamespacedName \<Rightarrow> 'w \<Rightarrow> error option \<times> 'w" where
  "Update_fn Now cli policyKey w =
     (case Get cli policyKey w of
        (Inl err, w1) \<Rightarrow> (Some (Wrap err ''getting policy failed''), w1)
      | (Inr policy, w1) \<Rightarrow>
          (case ListEnactments cli
                  (MatchingLabels [(EnactmentPolicyLabel, PolicyName policy)]) w1 of
             (Inl err, w2) \<Rightarrow> (Some (Wrap err ''getting enactments failed''), w2)
           | (Inr enactments, w2) \<Rightarrow>
               (case NodesRunningNmstate cli w2 of
                  (Inl err, w3) \<Rightarrow>
                    (Some (Wrap err ''getting nodes running kubernets-nmstate pods failed''), w3)
                | (Inr nmstateNodes, w3) \<Rightarrow>
                    StatusUpdate cli
                      (policy\<lparr>PolicyStatus := (PolicyStatus policy)
                         \<lparr>Conditions :=
                            Update_setConditions (Now w3)
                              (Conditions (PolicyStatus policy))
                              (Count enactments (Generation policy))
                              (int (length nmstateNodes))\<rparr>\<rparr>)
                      w3)))"

definition Update ::
  "(error \<Rightarrow> bool) \<Rightarrow> ('w \<Rightarrow> time) \<Rightarrow> 'w Client \<Rightarrow> NamespacedName \<Rightarrow> 'w
    \<Rightarrow> error option \<times> 'w" where
  "Update IsConflict Now cli policyKey w =
     RetryOnConflict IsConflict DefaultRetry (Update_fn Now cli policyKey) w"

subsection \<open>Reset (conditions.go, lines 155 to 175)\<close>

definition Reset_fn :: "'w Client \<Rightarrow> NamespacedName \<Rightarrow> 'w \<Rightarrow> error option \<times> 'w" where
  "Reset_fn cli policyKey w =
     (case Get cli policyKey w of
        (Inl err, w1) \<Rightarrow> (Some (Wrap err ''getting policy failed''), w1)
      | (Inr policy, w1) \<Rightarrow>
          StatusUpdate cli
            (policy\<lparr>PolicyStatus := (PolicyStatus policy)\<lparr>Conditions := []\<rparr>\<rparr>) w1)"

definition Reset ::
  "(error \<Rightarrow> bool) \<Rightarrow> 'w Client \<Rightarrow> NamespacedName \<Rightarrow> 'w \<Rightarrow> error option \<times> 'w" where
  "Reset IsConflict cli policyKey w =
     RetryOnConflict IsConflict DefaultRetry (Reset_fn cli policyKey) w"

subsection \<open>Observing the calls of a client\<close>

text \<open>
  To say what a run fetched and what it wrote, a client is wrapped so that every call
  is passed on unchanged and noted, with its result, at the end of a trace kept
  beside the state of the world.
\<close>

datatype event =
  EvGet NamespacedName "error + Policy"
  | EvList ListOption "error + Enactment list"
  | EvListNodes "error + Node list"
  | EvStatusUpdate Policy "error option"

definition traced :: "'w Client \<Rightarrow> ('w \<times> event list) Client" where
  "traced cli =
     \<lparr>Get = (\<lambda>key (w, tr). case Get cli key w of (r, w') \<Rightarrow> (r, (w', tr @ [EvGet key r]))),
      ListEnactments =
        (\<lambda>opt (w, tr). case ListEnactments cli opt w of (r, w') \<Rightarrow> (r, (w', tr @ [EvList opt r]))),
      ListNodes = (\<lambda>(w, tr). case ListNodes cli w of (r, w') \<Rightarrow> (r, (w', tr @ [EvListNodes r]))),
      StatusUpdate =
        (\<lambda>policy (w, tr). case StatusUpdate cli policy w of
           (r, w') \<Rightarrow> (r, (w', tr @ [EvStatusUpdate policy r])))\<rparr>"

text \<open>The status writes of a trace, and the ones the store accepted.\<close>

fun writes :: "event list \<Rightarrow> (Policy \<times> error option) list" where
  "writes [] = []"
| "writes (EvStatusUpdate policy r # tr) = (policy, r) # writes tr"
| "writes (ev # tr) = writes tr"

definition persisted :: "event list \<Rightarrow> Policy list" where
  "persisted tr = map fst (filter (\<lambda>(policy, r). r = None) (writes tr))"

text \<open>
  A written policy differs from a fetched one in the conditions of its status only.
\<close>

definition onlyConditionsChanged :: "Policy \<Rightarrow> Policy \<Rightarrow> bool" where
  "onlyConditionsChanged fetched written =
     (written = fetched\<lparr>PolicyStatus := (PolicyStatus fetched)
                  \<lparr>Conditions := Conditions (PolicyStatus written)\<rparr>\<rparr>)"

text \<open>
  A trace keeps the frame when every status write in it follows a successful fetch
  and writes back the policy fetched last with only its conditions changed. The first
  argument is the policy fetched last before the trace, if any.
\<close>

fun keepsFrame :: "Policy option \<Rightarrow> event list \<Rightarrow> bool" where
  "keepsFrame fetched [] = True"
| "keepsFrame fetched (EvGet key r # tr) =
     keepsFrame (case r of Inl err \<Rightarrow> None | Inr policy \<Rightarrow> Some policy) tr"
| "keepsFrame fetched (EvStatusUpdate written r # tr) =
     ((case fetched of None \<Rightarrow> False | Some policy \<Rightarrow> onlyConditionsChanged policy written)
      \<and> keepsFrame fetched tr)"
| "keepsFrame fetched (ev # tr) = keepsFrame fetched tr"

text \<open>
  Every status write of a trace comes, within its attempt, after a successful fetch,
  a successful listing of the enactments and a successful listing of the nodes, and
  the policy written stands in the relation \<open>P\<close> to what these three returned. The
  second argument holds what the attempt under way has read so far; a fetch starts
  an attempt.
\<close>

fun everyWrite ::
  "(Policy \<Rightarrow> Enactment list \<Rightarrow> Node list \<Rightarrow> Policy \<Rightarrow> bool)
    \<Rightarrow> Policy option \<times> Enactment list option \<times> Node list option \<Rightarrow> event list \<Rightarrow> bool" where
  "everyWrite P reads [] = True"
| "everyWrite P (fetched, enactments, listed) (EvGet key r # tr) =
     everyWrite P (case r of Inl err \<Rightarrow> None | Inr policy \<Rightarrow> Some policy, None, None) tr"
| "everyWrite P (fetched, enactments, listed) (EvList opt r # tr) =
     everyWrite P (fetched, case r of Inl err \<Rightarrow> None | Inr es \<Rightarrow> Some es, None) tr"
| "everyWrite P (fetched, enactments, listed) (EvListNodes r # tr) =
     everyWrite P (fetched, enactments, case r of Inl err \<Rightarrow> None | Inr ns \<Rightarrow> Some ns) tr"
| "everyWrite P (fetched, enactments, listed) (EvStatusUpdate written r # tr) =
     ((case (fetched, enactments, listed) of
         (Some policy, Some es, Some ns) \<Rightarrow> P policy es ns written
       | _ \<Rightarrow> False)
      \<and> everyWrite P (fetched, enactments, listed) tr)"

subsection \<open>A scripted store for running examples\<close>

text \<open>
  An in-memory stand-in for the store: the world is a list of rounds, each holding
  what the three reads return and what the status write answers until that write
  happens; a status write ends the round. With no round left every call fails.
\<close>

record round =
  getResult :: "error + Policy"
  listResult :: "error + Enactment list"
  nodesResult :: "error + Node list"
  writeResult :: "error option"

definition gone :: error where
  "gone = StatusError StatusReasonNotFound ''no round left''"

definition scripted :: "round list Client" where
  "scripted =
     \<lparr>Get = (\<lambda>key w. (case w of [] \<Rightarrow> Inl gone | r # rest \<Rightarrow> getResult r, w)),
      ListEnactments = (\<lambda>opt w. (case w of [] \<Rightarrow> Inl gone | r # rest \<Rightarrow> listResult r, w)),
      ListNodes = (\<lambda>w. (case w of [] \<Rightarrow> Inl gone | r # rest \<Rightarrow> nodesResult r, w)),
      StatusUpdate =
        (\<lambda>policy w. case w of [] \<Rightarrow> (Some gone, []) | r # rest \<Rightarrow> (writeResult r, rest))\<rparr>"

subsection \<open>Example objects\<close>

text \<open>
  A policy named \<open>policy1\<close> at a generation with given conditions, the report of a node
  on it (an enactment with one Available-type condition), and a node that runs the
  handler.
\<close>

definition policyKey1 :: NamespacedName where
  "policyKey1 = \<lparr>Namespace = [], Name = ''policy1''\<rparr>"

definition policyAt :: "int \<Rightarrow> ConditionList \<Rightarrow> Policy" where
  "policyAt generation conditions =
     \<lparr>PolicyName = ''policy1'', Generation = generation, ResourceVersion = ''1'',
      PolicySpec = ''desired state'', PolicyStatus = \<lparr>Conditions = conditions\<rparr>\<rparr>"

definition report :: "string \<Rightarrow> int \<Rightarrow> ConditionStatus \<Rightarrow> ConditionReason \<Rightarrow> Enactment" where
  "report node generation status reason =
     \<lparr>NodeName = node, EnactmentPolicy = ''policy1'', PolicyGeneration = generation,
      EnactmentConditions =
        [\<lparr>Type = ''Available'', Status = status, Reason = reason, Message = [],
          LastHeartbeatTime = 0, LastTransitionTime = 0\<rparr>]\<rparr>"

definition handlerOn :: "string \<Rightarrow> Node" where
  "handlerOn node = \<lparr>NodeMetaName = node, agentScheduled = True\<rparr>"

definition nodes :: "nat \<Rightarrow> Node list" where
  "nodes n = map (\<lambda>i. handlerOn (''node'' @ digits i)) [1..<Suc n]"

definition roundOf :: "Policy \<Rightarrow> Enactment list \<Rightarrow> nat \<Rightarrow> error option \<Rightarrow> round" where
  "roundOf policy enactments n answer =
     \<lparr>getResult = Inr policy, listResult = Inr enactments, nodesResult = Inr (nodes n),
      writeResult = answer\<rparr>"

text \<open>Two nodes, one report of the current generation 2 and one of generation 1.\<close>

definition staleReports :: "Enactment list" where
  "staleReports =
     [report ''node1'' 2 ConditionTrue ''SuccessfullyConfigured'',
      report ''node2'' 1 ConditionTrue ''SuccessfullyConfigured'']"

text \<open>Four nodes: one configured, one failed, one aborted, one not matching.\<close>

definition mixedReports :: "Enactment list" where
  "mixedReports =
     [report ''node1'' 2 ConditionTrue ''SuccessfullyConfigured'',
      report ''node2'' 2 ConditionFalse ''FailedToConfigure'',
      report ''node3'' 2 ConditionFalse ''ConfigurationAborted'',
      report ''node4'' 2 ConditionTrue ''ConfigurationNoMatchingNode'']"

text \<open>Two nodes, none matching the policy.\<close>

definition noMatchReports :: "Enactment list" where
  "noMatchReports =
     [report ''node1'' 2 ConditionTrue ''ConfigurationNoMatchingNode'',
      report ''node2'' 2 ConditionTrue ''ConfigurationNoMatchingNode'']"

text \<open>Three nodes, all configured.\<close>

definition doneReports :: "Enactment list" where
  "doneReports =
     [report ''node1'' 2 ConditionTrue ''SuccessfullyConfigured'',
      report ''node2'' 2 ConditionTrue ''SuccessfullyConfigured'',
      report ''node3'' 2 ConditionTrue ''SuccessfullyConfigured'']"

definition conflict :: error where
  "conflict = StatusError StatusReasonConflict ''the object has been modified''"

definition forbidden :: error where
  "forbidden = StatusError StatusReasonForbidden ''not allowed''"



section \<open>Properties\<close>

subsection \<open>Condition lists\<close>

lemma Find_Set_same:
  "\<exists>c. ConditionList_Find (ConditionList_Set now cs t s r m) t = Some c
       \<and> Status c = s \<and> Reason c = r \<and> Message c = m"
  by (induction cs) auto

lemma Find_Set_other:
  "t' \<noteq> t \<Longrightarrow> ConditionList_Find (ConditionList_Set now cs t s r m) t' = ConditionList_Find cs t'"
  by (induction cs) auto

lemma statusOf_Set:
  "statusOf (ConditionList_Set now cs t s r m) t' = (if t' = t then Some s else statusOf cs t')"
  using Find_Set_same [of now cs t s r m] Find_Set_other [of t' t now cs s r m]
  by (auto simp: statusOf_def)

lemma reasonOf_Set:
  "reasonOf (ConditionList_Set now cs t s r m) t' = (if t' = t then Some r else reasonOf cs t')"
  using Find_Set_same [of now cs t s r m] Find_Set_other [of t' t now cs s r m]
  by (auto simp: reasonOf_def)

lemma messageOf_Set:
  "messageOf (ConditionList_Set now cs t s r m) t' = (if t' = t then Some m else messageOf cs t')"
  using Find_Set_same [of now cs t s r m] Find_Set_other [of t' t now cs s r m]
  by (auto simp: messageOf_def)

lemma Degraded_neq_Available:
  "NodeNetworkConfigurationPolicyConditionDegraded \<noteq> NodeNetworkConfigurationPolicyConditionAvailable"
  by (simp add: NodeNetworkConfigurationPolicyConditionDegraded_def
      NodeNetworkConfigurationPolicyConditionAvailable_def)

lemmas SetPolicy_defs =
  SetPolicyProgressing_def SetPolicySuccess_def SetPolicyNotMatching_def
  SetPolicyFailedToConfigure_def

lemmas Set_reads = statusOf_Set reasonOf_Set messageOf_Set Degraded_neq_Available
  Degraded_neq_Available [symmetric]

subsection \<open>Counting\<close>

lemma finished_buckets:
  "inBucket BucketAvailable es + inBucket BucketFailed es + inBucket BucketNotMatching es
     + inBucket BucketAborted es
   = int (length (filter (\<lambda>e. classify e \<noteq> BucketProgressing) es))"
proof (induction es)
  case Nil
  show ?case by (simp add: inBucket_def)
next
  case (Cons e es)
  then show ?case by (cases "classify e") (simp_all add: inBucket_def)
qed

lemma Count_finished:
  "Available (Count enactments g) + Failed (Count enactments g)
     + NotMatching (Count enactments g) + Aborted (Count enactments g)
   = int (length (filter (\<lambda>e. classify e \<noteq> BucketProgressing) (current enactments g)))"
  by (simp add: Count_def Let_def finished_buckets)

lemma fmt_d_small:
  "fmt_d 0 = ''0''" "fmt_d 1 = ''1''" "fmt_d 2 = ''2''" "fmt_d 3 = ''3''" "fmt_d 4 = ''4''"
  by code_simp+

lemma Count_staleReports:
  "Count staleReports 2 =
     \<lparr>Available = 1, Failed = 0, NotMatching = 0, Aborted = 0, Matching = 1, Progressing = 0\<rparr>"
  by code_simp


lemma Count_noMatchReports:
  "Count noMatchReports 2 =
     \<lparr>Available = 0, Failed = 0, NotMatching = 2, Aborted = 0, Matching = 0, Progressing = 0\<rparr>"
  by code_simp

lemma Count_doneReports:
  "Count doneReports 2 =
     \<lparr>Available = 3, Failed = 0, NotMatching = 0, Aborted = 0, Matching = 3, Progressing = 0\<rparr>"
  by code_simp

subsection \<open>One attempt of Update\<close>

lemma Update_fn_reads_ok:
  assumes "Get cli policyKey w = (Inr policy, w1)"
    and "ListEnactments cli (MatchingLabels [(EnactmentPolicyLabel, PolicyName policy)]) w1
          = (Inr enactments, w2)"
    and "NodesRunningNmstate cli w2 = (Inr nmstateNodes, w3)"
  shows "Update_fn Now cli policyKey w =
         StatusUpdate cli
           (policy\<lparr>PolicyStatus := (PolicyStatus policy)
              \<lparr>Conditions :=
                 Update_setConditions (Now w3) (Conditions (PolicyStatus policy))
                   (Count enactments (Generation policy))
                   (int (length nmstateNodes))\<rparr>\<rparr>)
           w3"
  using assms by (simp add: Update_fn_def)

subsection \<open>The scripted store\<close>

lemma length_nodes: "length (nodes n) = n"
  by (simp add: nodes_def)

lemma scripted_Get:
  "Get scripted key (roundOf policy enactments n answer # rest)
   = (Inr policy, roundOf policy enactments n answer # rest)"
  by (simp add: scripted_def roundOf_def)

lemma scripted_ListEnactments:
  "ListEnactments scripted opt (roundOf policy enactments n answer # rest)
   = (Inr enactments, roundOf policy enactments n answer # rest)"
  by (simp add: scripted_def roundOf_def)

lemma scripted_NodesRunningNmstate:
  "NodesRunningNmstate scripted (roundOf policy enactments n answer # rest)
   = (Inr (nodes n), roundOf policy enactments n answer # rest)"
  by (simp add: scripted_def roundOf_def NodesRunningNmstate_def nodes_def handlerOn_def
      filter_map o_def)

lemma scripted_StatusUpdate:
  "StatusUpdate scripted written (roundOf policy enactments n answer # rest) = (answer, rest)"
  by (simp add: scripted_def roundOf_def)

lemmas scripted_calls =
  scripted_Get scripted_ListEnactments scripted_NodesRunningNmstate scripted_StatusUpdate

subsection \<open>The message and the reason of the two conditions\<close>

text \<open>
  C9. The message goes to the two conditions unevenly: after SetPolicyProgressing and
  after SetPolicySuccess the message of Degraded is empty and the message given is on
  Available only; after SetPolicyFailedToConfigure the message of Available is empty
  and the message given is on Degraded only; after SetPolicyNotMatching both carry
  the message given.
\<close>

theorem SetPolicy_messages:
  "messageOf (SetPolicyProgressing now conditions message)
     NodeNetworkConfigurationPolicyConditionDegraded = Some []
   \<and> messageOf (SetPolicyProgressing now conditions message)
       NodeNetworkConfigurationPolicyConditionAvailable = Some message
   \<and> messageOf (SetPolicySuccess now conditions message)
       NodeNetworkConfigurationPolicyConditionDegraded = Some []
   \<and> messageOf (SetPolicySuccess now conditions message)
       NodeNetworkConfigurationPolicyConditionAvailable = Some message
   \<and> messageOf (SetPolicyFailedToConfigure now conditions message)
       NodeNetworkConfigurationPolicyConditionDegraded = Some message
   \<and> messageOf (SetPolicyFailedToConfigure now conditions message)
       NodeNetworkConfigurationPolicyConditionAvailable = Some []
   \<and> messageOf (SetPolicyNotMatching now conditions message)
       NodeNetworkConfigurationPolicyConditionDegraded = Some message
   \<and> messageOf (SetPolicyNotMatching now conditions message)
       NodeNetworkConfigurationPolicyConditionAvailable = Some message"
  by (simp add: SetPolicy_defs Set_reads)

theorem SetPolicy_messages_witness:
  "messageOf (SetPolicyProgressing 7 (SetPolicyNotMatching 1 [] ''before'') ''after'')
     NodeNetworkConfigurationPolicyConditionDegraded = Some []
   \<and> messageOf (SetPolicyProgressing 7 (SetPolicyNotMatching 1 [] ''before'') ''after'')
       NodeNetworkConfigurationPolicyConditionAvailable = Some ''after''
   \<and> messageOf (SetPolicySuccess 7 (SetPolicyNotMatching 1 [] ''before'') ''after'')
       NodeNetworkConfigurationPolicyConditionDegraded = Some []
   \<and> messageOf (SetPolicySuccess 7 (SetPolicyNotMatching 1 [] ''before'') ''after'')
       NodeNetworkConfigurationPolicyConditionAvailable = Some ''after''
   \<and> messageOf (SetPolicyFailedToConfigure 7 (SetPolicyNotMatching 1 [] ''before'') ''after'')
       NodeNetworkConfigurationPolicyConditionDegraded = Some ''after''
   \<and> messageOf (SetPolicyFailedToConfigure 7 (SetPolicyNotMatching 1 [] ''before'') ''after'')
       NodeNetworkConfigurationPolicyConditionAvailable = Some []
   \<and> messageOf (SetPolicyNotMatching 7 (SetPolicyNotMatching 1 [] ''before'') ''after'')
       NodeNetworkConfigurationPolicyConditionDegraded = Some ''after''
   \<and> messageOf (SetPolicyNotMatching 7 (SetPolicyNotMatching 1 [] ''before'') ''after'')
       NodeNetworkConfigurationPolicyConditionAvailable = Some ''after''"
  by (rule SetPolicy_messages)

text \<open>
  C10. After each of the four helpers the Degraded and the Available condition carry
  the same reason, the one of the verdict: ConfigurationProgressing,
  SuccessfullyConfigured, ConfigurationNoMatchingNode and FailedToConfigure. So the
  conditions that Update computes, whatever the counts, have one reason on both.
\<close>

theorem SetPolicy_reasons_agree:
  "reasonOf (SetPolicyProgressing now conditions message)
     NodeNetworkConfigurationPolicyConditionDegraded
     = Some NodeNetworkConfigurationPolicyConditionConfigurationProgressing
   \<and> reasonOf (SetPolicyProgressing now conditions message)
       NodeNetworkConfigurationPolicyConditionAvailable
       = Some NodeNetworkConfigurationPolicyConditionConfigurationProgressing
   \<and> reasonOf (SetPolicySuccess now conditions message)
       NodeNetworkConfigurationPolicyConditionDegraded
       = Some NodeNetworkConfigurationPolicyConditionSuccessfullyConfigured
   \<and> reasonOf (SetPolicySuccess now conditions message)
       NodeNetworkConfigurationPolicyConditionAvailable
       = Some NodeNetworkConfigurationPolicyConditionSuccessfullyConfigured
   \<and> reasonOf (SetPolicyNotMatching now conditions message)
       NodeNetworkConfigurationPolicyConditionDegraded
       = Some NodeNetworkConfigurationPolicyConditionConfigurationNoMatchingNode
   \<and> reasonOf (SetPolicyNotMatching now conditions message)
       NodeNetworkConfigurationPolicyConditionAvailable
       = Some NodeNetworkConfigurationPolicyConditionConfigurationNoMatchingNode
   \<and> reasonOf (SetPolicyFailedToConfigure now conditions message)
       NodeNetworkConfigurationPolicyConditionDegraded
       = Some NodeNetworkConfigurationPolicyConditionFailedToConfigure
   \<and> reasonOf (SetPolicyFailedToConfigure now conditions message)
       NodeNetworkConfigurationPolicyConditionAvailable
       = Some NodeNetworkConfigurationPolicyConditionFailedToConfigure
   \<and> reasonOf (Update_setConditions now conditions c n)
       NodeNetworkConfigurationPolicyConditionDegraded
       = reasonOf (Update_setConditions now conditions c n)
           NodeNetworkConfigurationPolicyConditionAvailable
   \<and> reasonOf (Update_setConditions now conditions c n)
       NodeNetworkConfigurationPolicyConditionDegraded \<noteq> None"
  by (simp add: Update_setConditions_def Let_def SetPolicy_defs Set_reads)

theorem SetPolicy_reasons_agree_witness:
  "reasonOf (SetPolicyFailedToConfigure 7 (SetPolicySuccess 1 [] ''before'') ''after'')
     NodeNetworkConfigurationPolicyConditionDegraded = Some ''FailedToConfigure''
   \<and> reasonOf (SetPolicyFailedToConfigure 7 (SetPolicySuccess 1 [] ''before'') ''after'')
       NodeNetworkConfigurationPolicyConditionAvailable = Some ''FailedToConfigure''
   \<and> reasonOf (Update_setConditions 7 (SetPolicySuccess 1 [] ''before'')
        (Count mixedReports 2) 4) NodeNetworkConfigurationPolicyConditionDegraded
      = reasonOf (Update_setConditions 7 (SetPolicySuccess 1 [] ''before'')
          (Count mixedReports 2) 4) NodeNetworkConfigurationPolicyConditionAvailable"
  using SetPolicy_reasons_agree [of 7 "SetPolicySuccess 1 [] ''before''" "''after''"
      "Count mixedReports 2" 4]
  by (simp add: NodeNetworkConfigurationPolicyConditionFailedToConfigure_def)

subsection \<open>The retry loop\<close>

lemma OnError_done:
  "fn s = (None, s') \<Longrightarrow> OnError (Suc k) retriable fn lastErr s = (None, s')"
  by simp

lemma OnError_fatal:
  "fn s = (Some err, s') \<Longrightarrow> \<not> retriable err
   \<Longrightarrow> OnError (Suc k) retriable fn lastErr s = (Some err, s')"
  by simp

lemma OnError_retry:
  "fn s = (Some err, s') \<Longrightarrow> retriable err
   \<Longrightarrow> OnError (Suc k) retriable fn lastErr s = OnError k retriable fn (Some err) s'"
  by simp

lemma DefaultRetry_Suc: "DefaultRetry = Suc (Suc (Suc (Suc (Suc 0))))"
  by (simp add: DefaultRetry_def eval_nat_numeral)

lemma OnError_invariant:
  assumes "\<And>s. I s \<Longrightarrow> I (snd (fn s))" and "I s"
  shows "I (snd (OnError k retriable fn lastErr s))"
  using assms(2)
proof (induction k arbitrary: s lastErr)
  case 0
  then show ?case by simp
next
  case (Suc k)
  from assms(1) [OF Suc.prems] have step: "I (snd (fn s))" .
  show ?case
  proof (cases "fn s")
    case (Pair r s')
    with step have s': "I s'" by simp
    show ?thesis
    proof (cases r)
      case None
      with Pair s' show ?thesis by simp
    next
      case (Some err)
      with Pair s' Suc.IH [OF s'] show ?thesis by simp
    qed
  qed
qed

subsection \<open>Traces\<close>

lemma writes_append: "writes (tr @ tr') = writes tr @ writes tr'"
  by (induction tr rule: writes.induct) simp_all

lemma persisted_append: "persisted (tr @ tr') = persisted tr @ persisted tr'"
  by (simp add: persisted_def writes_append)

lemma keepsFrame_append_Get:
  "keepsFrame fetched (tr @ EvGet key r # tr')
   = (keepsFrame fetched tr \<and> keepsFrame None (EvGet key r # tr'))"
  by (induction fetched tr rule: keepsFrame.induct) simp_all

lemma traced_Get:
  "Get cli key w = (r, w') \<Longrightarrow> Get (traced cli) key (w, tr) = (r, (w', tr @ [EvGet key r]))"
  by (simp add: traced_def)

lemma traced_ListEnactments:
  "ListEnactments cli opt w = (r, w')
   \<Longrightarrow> ListEnactments (traced cli) opt (w, tr) = (r, (w', tr @ [EvList opt r]))"
  by (simp add: traced_def)

lemma traced_NodesRunningNmstate:
  "ListNodes cli w = (r, w')
   \<Longrightarrow> NodesRunningNmstate (traced cli) (w, tr)
       = (map_sum id (filter agentScheduled) r, (w', tr @ [EvListNodes r]))"
  by (cases r) (simp_all add: traced_def NodesRunningNmstate_def)

lemma traced_StatusUpdate:
  "StatusUpdate cli policy w = (r, w')
   \<Longrightarrow> StatusUpdate (traced cli) policy (w, tr) = (r, (w', tr @ [EvStatusUpdate policy r]))"
  by (simp add: traced_def)

lemmas traced_calls =
  traced_Get traced_ListEnactments traced_NodesRunningNmstate traced_StatusUpdate

subsection \<open>One attempt, call by call\<close>




lemma Update_fn_writes:
  assumes "Get cli policyKey w = (Inr policy, w1)"
    and "ListEnactments cli (MatchingLabels [(EnactmentPolicyLabel, PolicyName policy)]) w1
          = (Inr enactments, w2)"
    and "ListNodes cli w2 = (Inr listed, w3)"
    and "written = policy\<lparr>PolicyStatus := (PolicyStatus policy)
           \<lparr>Conditions :=
              Update_setConditions (Now w3) (Conditions (PolicyStatus policy))
                (Count enactments (Generation policy))
                (int (length (filter agentScheduled listed)))\<rparr>\<rparr>"
    and "StatusUpdate cli written w3 = (r, w4)"
  shows "Update_fn (\<lambda>(w, tr). Now w) (traced cli) policyKey (w, tr)
         = (r, (w4, tr @ [EvGet policyKey (Inr policy),
                          EvList (MatchingLabels [(EnactmentPolicyLabel, PolicyName policy)])
                            (Inr enactments),
                          EvListNodes (Inr listed),
                          EvStatusUpdate written r]))"
  using assms(4,5)
  by (simp add: Update_fn_def traced_Get [OF assms(1)] traced_ListEnactments [OF assms(2)]
      traced_NodesRunningNmstate [OF assms(3)] traced_StatusUpdate)

lemma Reset_fn_Get_fails:
  assumes "Get cli policyKey w = (Inl err, w1)"
  shows "Reset_fn (traced cli) policyKey (w, tr)
         = (Some (Wrap err ''getting policy failed''), (w1, tr @ [EvGet policyKey (Inl err)]))"
  by (simp add: Reset_fn_def traced_Get [OF assms])

lemma Reset_fn_writes:
  assumes "Get cli policyKey w = (Inr policy, w1)"
    and "StatusUpdate cli (policy\<lparr>PolicyStatus := (PolicyStatus policy)\<lparr>Conditions := []\<rparr>\<rparr>) w1
          = (r, w2)"
  shows "Reset_fn (traced cli) policyKey (w, tr)
         = (r, (w2, tr @ [EvGet policyKey (Inr policy),
                          EvStatusUpdate
                            (policy\<lparr>PolicyStatus := (PolicyStatus policy)\<lparr>Conditions := []\<rparr>\<rparr>)
                            r]))"
  by (simp add: Reset_fn_def traced_Get [OF assms(1)] traced_StatusUpdate [OF assms(2)])

subsection \<open>Conflicts and errors of Update\<close>

text \<open>
  C5. When the status write of the first attempt is refused with a conflict and the
  one of the second attempt is accepted, the run is: fetch, list, list, write
  (conflict), then again fetch, list, list, write, the second three reads made in the
  world left by the refused write. The one policy persisted is the policy of the
  second fetch with the conditions computed from it, from the enactments and from the
  nodes of the second listing; nothing read before the refused write enters it.
\<close>

theorem Update_conflict_refetch:
  assumes "Get cli policyKey w0 = (Inr policy1, w1)"
    and "ListEnactments cli (MatchingLabels [(EnactmentPolicyLabel, PolicyName policy1)]) w1
          = (Inr enactments1, w2)"
    and "ListNodes cli w2 = (Inr listed1, w3)"
    and "written1 = policy1\<lparr>PolicyStatus := (PolicyStatus policy1)
           \<lparr>Conditions :=
              Update_setConditions (Now w3) (Conditions (PolicyStatus policy1))
                (Count enactments1 (Generation policy1))
                (int (length (filter agentScheduled listed1)))\<rparr>\<rparr>"
    and "StatusUpdate cli written1 w3 = (Some err, w4)"
    and "IsConflict err"
    and "Get cli policyKey w4 = (Inr policy2, w5)"
    and "ListEnactments cli (MatchingLabels [(EnactmentPolicyLabel, PolicyName policy2)]) w5
          = (Inr enactments2, w6)"
    and "ListNodes cli w6 = (Inr listed2, w7)"
    and "written2 = policy2\<lparr>PolicyStatus := (PolicyStatus policy2)
           \<lparr>Conditions :=
              Update_setConditions (Now w7) (Conditions (PolicyStatus policy2))
                (Count enactments2 (Generation policy2))
                (int (length (filter agentScheduled listed2)))\<rparr>\<rparr>"
    and "StatusUpdate cli written2 w7 = (None, w8)"
    and "run = Update IsConflict (\<lambda>(w, tr). Now w) (traced cli) policyKey (w0, [])"
  shows "run =
         (None, (w8,
           [EvGet policyKey (Inr policy1),
            EvList (MatchingLabels [(EnactmentPolicyLabel, PolicyName policy1)]) (Inr enactments1),
            EvListNodes (Inr listed1),
            EvStatusUpdate written1 (Some err),
            EvGet policyKey (Inr policy2),
            EvList (MatchingLabels [(EnactmentPolicyLabel, PolicyName policy2)]) (Inr enactments2),
            EvListNodes (Inr listed2),
            EvStatusUpdate written2 None]))
       \<and> persisted (snd (snd run)) = [written2]"
proof -
  let ?fn = "Update_fn (\<lambda>(w, tr). Now w) (traced cli) policyKey"
  let ?tr1 =
    "[EvGet policyKey (Inr policy1),
      EvList (MatchingLabels [(EnactmentPolicyLabel, PolicyName policy1)]) (Inr enactments1),
      EvListNodes (Inr listed1),
      EvStatusUpdate written1 (Some err)]"
  let ?tr2 =
    "[EvGet policyKey (Inr policy2),
      EvList (MatchingLabels [(EnactmentPolicyLabel, PolicyName policy2)]) (Inr enactments2),
      EvListNodes (Inr listed2),
      EvStatusUpdate written2 None]"
  have first: "?fn (w0, []) = (Some err, (w4, [] @ ?tr1))"
    by (rule Update_fn_writes [where Now = Now, OF assms(1,2,3,4,5)])
  have second: "?fn (w4, ?tr1) = (None, (w8, ?tr1 @ ?tr2))"
    by (rule Update_fn_writes [where Now = Now, OF assms(7,8,9,10,11)])
  have "run = OnError (Suc (Suc (Suc (Suc (Suc 0))))) IsConflict ?fn None (w0, [])"
    by (simp add: assms(12) Update_def RetryOnConflict_def DefaultRetry_Suc)
  also have "\<dots> = OnError (Suc (Suc (Suc (Suc 0)))) IsConflict ?fn (Some err) (w4, ?tr1)"
    using first assms(6) by simp
  also have "\<dots> = (None, (w8, ?tr1 @ ?tr2))"
    using second by simp
  finally have run: "run = (None, (w8, ?tr1 @ ?tr2))" .
  then show ?thesis
    by (simp add: persisted_def)
qed

theorem Update_conflict_refetch_witness:
  "Update IsConflict_unwrapping (\<lambda>(w, tr). 7) (traced scripted) policyKey1
     ([roundOf (policyAt 2 []) mixedReports 4 (Some conflict),
       roundOf (policyAt 2 []) doneReports 3 None], [])
   = (None, ([],
       [EvGet policyKey1 (Inr (policyAt 2 [])),
        EvList (MatchingLabels [(EnactmentPolicyLabel, ''policy1'')]) (Inr mixedReports),
        EvListNodes (Inr (nodes 4)),
        EvStatusUpdate
          (policyAt 2 (Update_setConditions 7 [] (Count mixedReports 2) 4)) (Some conflict),
        EvGet policyKey1 (Inr (policyAt 2 [])),
        EvList (MatchingLabels [(EnactmentPolicyLabel, ''policy1'')]) (Inr doneReports),
        EvListNodes (Inr (nodes 3)),
        EvStatusUpdate
          (policyAt 2 (Update_setConditions 7 [] (Count doneReports 2) 3)) None]))
   \<and> messageOf (Update_setConditions 7 [] (Count doneReports 2) 3)
        NodeNetworkConfigurationPolicyConditionAvailable
      = Some ''3/3 nodes successfully configured''
   \<and> messageOf (Update_setConditions 7 [] (Count mixedReports 2) 4)
        NodeNetworkConfigurationPolicyConditionAvailable
      = Some []"
proof -
  let ?r1 = "roundOf (policyAt 2 []) mixedReports 4 (Some conflict)"
  let ?r2 = "roundOf (policyAt 2 []) doneReports 3 None"
  have listed: "filter agentScheduled (nodes n) = nodes n" for n
    by (simp add: nodes_def handlerOn_def filter_map o_def)
  note T = Update_conflict_refetch [where cli = scripted and policyKey = policyKey1
      and Now = "\<lambda>w. 7" and IsConflict = IsConflict_unwrapping
      and ?w0.0 = "[?r1, ?r2]" and ?w1.0 = "[?r1, ?r2]" and ?w2.0 = "[?r1, ?r2]"
      and ?w3.0 = "[?r1, ?r2]" and ?w4.0 = "[?r2]" and ?w5.0 = "[?r2]" and ?w6.0 = "[?r2]"
      and ?w7.0 = "[?r2]" and ?w8.0 = "[]"
      and ?policy1.0 = "policyAt 2 []" and ?policy2.0 = "policyAt 2 []"
      and ?enactments1.0 = mixedReports and ?enactments2.0 = doneReports
      and ?listed1.0 = "nodes 4" and ?listed2.0 = "nodes 3" and err = conflict,
      OF scripted_Get _ _ refl scripted_StatusUpdate _ scripted_Get _ _ refl
        scripted_StatusUpdate refl]
  have run: "Update IsConflict_unwrapping (\<lambda>(w, tr). 7) (traced scripted) policyKey1
       ([?r1, ?r2], [])
     = (None, ([],
       [EvGet policyKey1 (Inr (policyAt 2 [])),
        EvList (MatchingLabels [(EnactmentPolicyLabel, PolicyName (policyAt 2 []))])
          (Inr mixedReports),
        EvListNodes (Inr (nodes 4)),
        EvStatusUpdate
          ((policyAt 2 [])\<lparr>PolicyStatus := (PolicyStatus (policyAt 2 []))
             \<lparr>Conditions :=
                Update_setConditions 7 (Conditions (PolicyStatus (policyAt 2 [])))
                  (Count mixedReports (Generation (policyAt 2 [])))
                  (int (length (filter agentScheduled (nodes 4))))\<rparr>\<rparr>) (Some conflict),
        EvGet policyKey1 (Inr (policyAt 2 [])),
        EvList (MatchingLabels [(EnactmentPolicyLabel, PolicyName (policyAt 2 []))])
          (Inr doneReports),
        EvListNodes (Inr (nodes 3)),
        EvStatusUpdate
          ((policyAt 2 [])\<lparr>PolicyStatus := (PolicyStatus (policyAt 2 []))
             \<lparr>Conditions :=
                Update_setConditions 7 (Conditions (PolicyStatus (policyAt 2 [])))
                  (Count doneReports (Generation (policyAt 2 [])))
                  (int (length (filter agentScheduled (nodes 3))))\<rparr>\<rparr>) None]))"
    by (rule T [THEN conjunct1])
      (simp_all add: scripted_def roundOf_def conflict_def)
  have same: "(policyAt 2 [])\<lparr>PolicyStatus := (PolicyStatus (policyAt 2 []))
             \<lparr>Conditions := cs\<rparr>\<rparr> = policyAt 2 cs" for cs
    by (simp add: policyAt_def)
  have m1: "messageOf (Update_setConditions 7 [] (Count doneReports 2) 3)
        NodeNetworkConfigurationPolicyConditionAvailable
      = Some ''3/3 nodes successfully configured''"
    by code_simp
  have m2: "messageOf (Update_setConditions 7 [] (Count mixedReports 2) 4)
        NodeNetworkConfigurationPolicyConditionAvailable = Some []"
    by code_simp
  show ?thesis
    using run by (simp add: same listed length_nodes policyAt_def m1 m2)
qed

subsection \<open>What a whole run writes\<close>

lemma Update_fn_attempt:
  "\<exists>r w' new. Update_fn Now' (traced cli) policyKey (w, tr) = (r, (w', tr @ new))
     \<and> (writes new = [] \<and> r \<noteq> None \<or> (\<exists>p. writes new = [(p, r)]))"
  by (auto simp: Update_fn_def traced_def NodesRunningNmstate_def
      split: prod.splits sum.splits)

lemma Reset_fn_attempt:
  "\<exists>r w' new. Reset_fn (traced cli) policyKey (w, tr) = (r, (w', tr @ new))
     \<and> (writes new = [] \<and> r \<noteq> None \<or> (\<exists>p. writes new = [(p, r)]))"
  by (auto simp: Reset_fn_def traced_def split: prod.splits sum.splits)

lemma OnError_writes:
  assumes step: "\<And>w tr. \<exists>r w' new. fn (w, tr) = (r, (w', tr @ new))
     \<and> (writes new = [] \<and> r \<noteq> None \<or> (\<exists>p. writes new = [(p, r)]))"
  shows "\<exists>r w' new. OnError k retriable fn lastErr (w, tr) = (r, (w', tr @ new))
     \<and> length (writes new) \<le> k \<and> (r \<noteq> None \<longrightarrow> persisted new = [])"
proof (induction k arbitrary: w tr lastErr)
  case 0
  show ?case by (simp add: persisted_def)
next
  case (Suc k)
  from step [of w tr] obtain r w1 new1 where
    fn: "fn (w, tr) = (r, (w1, tr @ new1))"
    and one: "writes new1 = [] \<and> r \<noteq> None \<or> (\<exists>p. writes new1 = [(p, r)])"
    by blast
  from one have len1: "length (writes new1) \<le> 1" by auto
  from one have none1: "r \<noteq> None \<Longrightarrow> persisted new1 = []"
    by (auto simp: persisted_def)
  show ?case
  proof (cases r)
    case None
    with fn len1 show ?thesis by auto
  next
    case (Some err)
    show ?thesis
    proof (cases "retriable err")
      case False
      with fn Some len1 none1 show ?thesis by auto
    next
      case True
      from Suc.IH [of "Some err" w1 "tr @ new1"] obtain r2 w2 new2 where
        rest: "OnError k retriable fn (Some err) (w1, tr @ new1) = (r2, (w2, (tr @ new1) @ new2))"
        and len2: "length (writes new2) \<le> k"
        and none2: "r2 \<noteq> None \<longrightarrow> persisted new2 = []"
        by blast
      from fn Some True rest
      have "OnError (Suc k) retriable fn lastErr (w, tr) = (r2, (w2, tr @ (new1 @ new2)))"
        by simp
      moreover from len1 len2 have "length (writes (new1 @ new2)) \<le> Suc k"
        by (simp add: writes_append)
      moreover from none1 none2 Some have "r2 \<noteq> None \<longrightarrow> persisted (new1 @ new2) = []"
        by (simp add: persisted_append)
      ultimately show ?thesis by blast
    qed
  qed
qed


lemma Reset_writes:
  "length (writes (snd (snd (Reset IsConflict (traced cli) policyKey (w, []))))) \<le> 5
   \<and> (fst (Reset IsConflict (traced cli) policyKey (w, [])) \<noteq> None
        \<longrightarrow> persisted (snd (snd (Reset IsConflict (traced cli) policyKey (w, [])))) = [])"
  using OnError_writes [of "Reset_fn (traced cli) policyKey" 5 IsConflict None w "[]",
      OF Reset_fn_attempt]
  by (auto simp: Reset_def RetryOnConflict_def DefaultRetry_def)




subsection \<open>Reset\<close>

text \<open>
  C7. Reset runs in the same retry loop, with the same budget, as Update. In the
  loop, at the first attempt as at any later one: it fetches the policy and writes it
  back with an empty condition list, with no listing and no counting in between, and
  ends with no error when the write is accepted; when the write is refused with a
  conflict the loop goes on with one step less, fetching again in the world the
  refused write left; when the write fails with an error that is no conflict the loop
  ends with that error; when the fetch fails with an error that, wrapped, is no
  conflict, the loop ends with that error wrapped in its context message and nothing
  is written.
\<close>

theorem Reset_clears:
  assumes "fn = Reset_fn (traced cli) policyKey"
    and "run = Reset IsConflict (traced cli) policyKey (w, [])"
    and "cleared = policy\<lparr>PolicyStatus := (PolicyStatus policy)\<lparr>Conditions := []\<rparr>\<rparr>"
  shows
    "run = RetryOnConflict IsConflict DefaultRetry fn (w, [])
     \<and> Update IsConflict Now' (traced cli) policyKey (w, [])
        = RetryOnConflict IsConflict DefaultRetry (Update_fn Now' (traced cli) policyKey) (w, [])
     \<and> (Get cli policyKey w = (Inr policy, w1)
        \<and> StatusUpdate cli cleared w1 = (None, w2)
      \<longrightarrow> OnError (Suc k) IsConflict fn lastErr (w, tr)
            = (None, (w2, tr @ [EvGet policyKey (Inr policy), EvStatusUpdate cleared None]))
          \<and> run = (None, (w2, [EvGet policyKey (Inr policy), EvStatusUpdate cleared None])))
     \<and> (Get cli policyKey w = (Inr policy, w1)
        \<and> StatusUpdate cli cleared w1 = (Some err, w2)
        \<and> IsConflict err
      \<longrightarrow> OnError (Suc k) IsConflict fn lastErr (w, tr)
            = OnError k IsConflict fn (Some err)
                (w2, tr @ [EvGet policyKey (Inr policy), EvStatusUpdate cleared (Some err)])
          \<and> run = OnError 4 IsConflict fn (Some err)
                (w2, [EvGet policyKey (Inr policy), EvStatusUpdate cleared (Some err)]))
     \<and> (Get cli policyKey w = (Inr policy, w1)
        \<and> StatusUpdate cli cleared w1 = (Some err, w2)
        \<and> \<not> IsConflict err
      \<longrightarrow> OnError (Suc k) IsConflict fn lastErr (w, tr)
            = (Some err,
               (w2, tr @ [EvGet policyKey (Inr policy), EvStatusUpdate cleared (Some err)]))
          \<and> run = (Some err,
                    (w2, [EvGet policyKey (Inr policy), EvStatusUpdate cleared (Some err)])))
     \<and> (Get cli policyKey w = (Inl err, w1)
        \<and> \<not> IsConflict (Wrap err ''getting policy failed'')
      \<longrightarrow> OnError (Suc k) IsConflict fn lastErr (w, tr)
            = (Some (Wrap err ''getting policy failed''),
               (w1, tr @ [EvGet policyKey (Inl err)]))
          \<and> run = (Some (Wrap err ''getting policy failed''),
                    (w1, [EvGet policyKey (Inl err)])))
     \<and> length (writes (snd (snd run))) \<le> 5"
proof -
  have loop: "run = RetryOnConflict IsConflict DefaultRetry fn (w, [])"
    by (simp add: assms(1,2) Reset_def)
  then have run: "run = OnError (Suc 4) IsConflict fn None (w, [])"
    by (simp add: RetryOnConflict_def DefaultRetry_def)
  have attempt: "fn (w, t)
      = (r, (w2, t @ [EvGet policyKey (Inr policy), EvStatusUpdate cleared r]))"
    if "Get cli policyKey w = (Inr policy, w1)" and "StatusUpdate cli cleared w1 = (r, w2)"
    for r t
    using Reset_fn_writes [OF that(1) that(2) [unfolded assms(3)]]
    by (simp add: assms(1,3))
  have ok: "OnError (Suc j) IsConflict fn e (w, t)
      = (None, (w2, t @ [EvGet policyKey (Inr policy), EvStatusUpdate cleared None]))"
    if "Get cli policyKey w = (Inr policy, w1)" and "StatusUpdate cli cleared w1 = (None, w2)"
    for j e t
    using attempt [OF that] by simp
  have retry: "OnError (Suc j) IsConflict fn e (w, t)
      = OnError j IsConflict fn (Some err)
          (w2, t @ [EvGet policyKey (Inr policy), EvStatusUpdate cleared (Some err)])"
    if "Get cli policyKey w = (Inr policy, w1)"
      and "StatusUpdate cli cleared w1 = (Some err, w2)" and "IsConflict err" for j e t
    using that(3) attempt [OF that(1,2)] by simp
  have fatal: "OnError (Suc j) IsConflict fn e (w, t)
      = (Some err, (w2, t @ [EvGet policyKey (Inr policy), EvStatusUpdate cleared (Some err)]))"
    if "Get cli policyKey w = (Inr policy, w1)"
      and "StatusUpdate cli cleared w1 = (Some err, w2)" and "\<not> IsConflict err" for j e t
    using that(3) attempt [OF that(1,2)] by simp
  have get: "OnError (Suc j) IsConflict fn e (w, t)
      = (Some (Wrap err ''getting policy failed''), (w1, t @ [EvGet policyKey (Inl err)]))"
    if "Get cli policyKey w = (Inl err, w1)"
      and "\<not> IsConflict (Wrap err ''getting policy failed'')" for j e t
    using that by (simp add: assms(1) Reset_fn_Get_fails)
  have bound: "length (writes (snd (snd run))) \<le> 5"
    unfolding assms(2) by (rule Reset_writes [THEN conjunct1])
  have same: "Update IsConflict Now' (traced cli) policyKey (w, [])
        = RetryOnConflict IsConflict DefaultRetry (Update_fn Now' (traced cli) policyKey) (w, [])"
    by (simp add: Update_def)
  show ?thesis
    using ok [of k lastErr tr] ok [of 4 None "[]"]
      retry [of k lastErr tr] retry [of 4 None "[]"]
      fatal [of k lastErr tr] fatal [of 4 None "[]"]
      get [of k lastErr tr] get [of 4 None "[]"] bound same loop
    unfolding run by simp
qed

theorem Reset_clears_witness:
  "Reset IsConflict_unwrapping (traced scripted) policyKey1
     ([roundOf (policyAt 2 (SetPolicySuccess 1 [] ''done'')) doneReports 3 None], [])
   = (None,
      ([], [EvGet policyKey1 (Inr (policyAt 2 (SetPolicySuccess 1 [] ''done''))),
            EvStatusUpdate (policyAt 2 []) None]))
   \<and> Reset IsConflict_unwrapping (traced scripted) policyKey1
     ([roundOf (policyAt 2 (SetPolicySuccess 1 [] ''done'')) doneReports 3 (Some conflict),
       roundOf (policyAt 3 (SetPolicyProgressing 2 [] ''busy'')) doneReports 3 None], [])
   = (None,
      ([], [EvGet policyKey1 (Inr (policyAt 2 (SetPolicySuccess 1 [] ''done''))),
            EvStatusUpdate (policyAt 2 []) (Some conflict),
            EvGet policyKey1 (Inr (policyAt 3 (SetPolicyProgressing 2 [] ''busy''))),
            EvStatusUpdate (policyAt 3 []) None]))
   \<and> Reset IsConflict_unwrapping (traced scripted) policyKey1
     ([roundOf (policyAt 2 (SetPolicySuccess 1 [] ''done'')) doneReports 3 (Some forbidden)], [])
   = (Some forbidden,
      ([], [EvGet policyKey1 (Inr (policyAt 2 (SetPolicySuccess 1 [] ''done''))),
            EvStatusUpdate (policyAt 2 []) (Some forbidden)]))
   \<and> Reset IsConflict_unwrapping (traced scripted) policyKey1
     ([(roundOf (policyAt 2 []) doneReports 3 None)\<lparr>getResult := Inl forbidden\<rparr>], [])
   = (Some (Wrap forbidden ''getting policy failed''),
      ([(roundOf (policyAt 2 []) doneReports 3 None)\<lparr>getResult := Inl forbidden\<rparr>],
       [EvGet policyKey1 (Inl forbidden)]))"
proof -
  let ?I = IsConflict_unwrapping
  let ?p = "policyAt 2 (SetPolicySuccess 1 [] ''done'')"
  let ?q = "policyAt 3 (SetPolicyProgressing 2 [] ''busy'')"
  let ?r1 = "roundOf ?p doneReports 3 None"
  let ?r2 = "roundOf ?p doneReports 3 (Some conflict)"
  let ?r3 = "roundOf ?q doneReports 3 None"
  let ?r4 = "roundOf ?p doneReports 3 (Some forbidden)"
  let ?r5 = "(roundOf (policyAt 2 []) doneReports 3 None)\<lparr>getResult := Inl forbidden\<rparr>"
  have cleared: "(policyAt g cs)\<lparr>PolicyStatus := (PolicyStatus (policyAt g cs))
      \<lparr>Conditions := []\<rparr>\<rparr> = policyAt g []" for g cs
    by (simp add: policyAt_def)
  have a: "Reset ?I (traced scripted) policyKey1 ([?r1], [])
      = (None, ([], [EvGet policyKey1 (Inr ?p),
           EvStatusUpdate (?p\<lparr>PolicyStatus := (PolicyStatus ?p)\<lparr>Conditions := []\<rparr>\<rparr>) None]))"
    by (rule Reset_clears [where cli = scripted and IsConflict = ?I and policyKey = policyKey1
          and w = "[?r1]" and ?w1.0 = "[?r1]" and ?w2.0 = "[]" and policy = ?p,
          OF refl refl refl, THEN conjunct2, THEN conjunct2, THEN conjunct1, THEN mp,
          THEN conjunct2])
      (simp add: scripted_def roundOf_def)
  have b: "Reset ?I (traced scripted) policyKey1 ([?r2, ?r3], [])
      = OnError 4 ?I (Reset_fn (traced scripted) policyKey1) (Some conflict)
          ([?r3], [EvGet policyKey1 (Inr ?p),
             EvStatusUpdate (?p\<lparr>PolicyStatus := (PolicyStatus ?p)\<lparr>Conditions := []\<rparr>\<rparr>)
               (Some conflict)])"
    by (rule Reset_clears [where cli = scripted and IsConflict = ?I and policyKey = policyKey1
          and w = "[?r2, ?r3]" and ?w1.0 = "[?r2, ?r3]" and ?w2.0 = "[?r3]" and policy = ?p
          and err = conflict,
          OF refl refl refl, THEN conjunct2, THEN conjunct2, THEN conjunct2, THEN conjunct1,
          THEN mp, THEN conjunct2])
      (simp add: scripted_def roundOf_def conflict_def)
  have b': "OnError 4 ?I (Reset_fn (traced scripted) policyKey1) (Some conflict)
          ([?r3], [EvGet policyKey1 (Inr ?p), EvStatusUpdate (policyAt 2 []) (Some conflict)])
      = (None, ([], [EvGet policyKey1 (Inr ?p), EvStatusUpdate (policyAt 2 []) (Some conflict),
                     EvGet policyKey1 (Inr ?q), EvStatusUpdate (policyAt 3 []) None]))"
    by code_simp
  have c: "Reset ?I (traced scripted) policyKey1 ([?r4], [])
      = (Some forbidden, ([], [EvGet policyKey1 (Inr ?p),
           EvStatusUpdate (?p\<lparr>PolicyStatus := (PolicyStatus ?p)\<lparr>Conditions := []\<rparr>\<rparr>)
             (Some forbidden)]))"
    by (rule Reset_clears [where cli = scripted and IsConflict = ?I and policyKey = policyKey1
          and w = "[?r4]" and ?w1.0 = "[?r4]" and ?w2.0 = "[]" and policy = ?p
          and err = forbidden,
          OF refl refl refl, THEN conjunct2, THEN conjunct2, THEN conjunct2, THEN conjunct2,
          THEN conjunct1, THEN mp, THEN conjunct2])
      (simp add: scripted_def roundOf_def forbidden_def)
  have d: "Reset ?I (traced scripted) policyKey1 ([?r5], [])
      = (Some (Wrap forbidden ''getting policy failed''),
         ([?r5], [EvGet policyKey1 (Inl forbidden)]))"
    by (rule Reset_clears [where cli = scripted and IsConflict = ?I and policyKey = policyKey1
          and w = "[?r5]" and ?w1.0 = "[?r5]" and err = forbidden,
          OF refl refl refl, THEN conjunct2, THEN conjunct2, THEN conjunct2, THEN conjunct2,
          THEN conjunct2, THEN conjunct1, THEN mp, THEN conjunct2])
      (simp add: scripted_def roundOf_def forbidden_def)
  show ?thesis
    using a b c d by (simp only: cleared b' simp_thms)
qed

subsection \<open>The frame of the status write\<close>

lemma Update_fn_keepsFrame:
  "keepsFrame None tr
   \<Longrightarrow> keepsFrame None (snd (snd (Update_fn Now' (traced cli) policyKey (w, tr))))"
  by (auto simp: Update_fn_def traced_def NodesRunningNmstate_def keepsFrame_append_Get
      onlyConditionsChanged_def split: prod.splits sum.splits)

lemma Reset_fn_keepsFrame:
  "keepsFrame None tr
   \<Longrightarrow> keepsFrame None (snd (snd (Reset_fn (traced cli) policyKey (w, tr))))"
  by (auto simp: Reset_fn_def traced_def keepsFrame_append_Get onlyConditionsChanged_def
      split: prod.splits sum.splits)

lemma onlyConditionsChanged_fields:
  "onlyConditionsChanged fetched written
   \<Longrightarrow> PolicyName written = PolicyName fetched \<and> Generation written = Generation fetched
       \<and> ResourceVersion written = ResourceVersion fetched
       \<and> PolicySpec written = PolicySpec fetched"
  by (cases fetched, cases written) (simp add: onlyConditionsChanged_def)

text \<open>
  C8. In every run of Update and in every run of Reset, in the first attempt as in any
  retry, each status write follows a successful fetch and hands to the store the
  policy fetched last with nothing but the conditions of its status changed: name,
  generation, concurrency token, spec and the rest of the object are as fetched.
\<close>

theorem Update_Reset_frame:
  "keepsFrame None (snd (snd (Update IsConflict Now' (traced cli) policyKey (w, []))))
   \<and> keepsFrame None (snd (snd (Reset IsConflict (traced cli) policyKey (w, []))))"
proof
  let ?I = "\<lambda>s :: 'a \<times> event list. keepsFrame None (snd s)"
  have "?I (snd (OnError DefaultRetry IsConflict (Update_fn Now' (traced cli) policyKey) None
      (w, [])))"
  proof (rule OnError_invariant [where I = ?I])
    fix s :: "'a \<times> event list"
    assume "keepsFrame None (snd s)"
    then show "keepsFrame None (snd (snd (Update_fn Now' (traced cli) policyKey s)))"
      using Update_fn_keepsFrame [of "snd s" Now' cli policyKey "fst s"] by simp
  qed simp
  then show "keepsFrame None (snd (snd (Update IsConflict Now' (traced cli) policyKey (w, []))))"
    by (simp add: Update_def RetryOnConflict_def)
next
  let ?I = "\<lambda>s :: 'a \<times> event list. keepsFrame None (snd s)"
  have "?I (snd (OnError DefaultRetry IsConflict (Reset_fn (traced cli) policyKey) None
      (w, [])))"
  proof (rule OnError_invariant [where I = ?I])
    fix s :: "'a \<times> event list"
    assume "keepsFrame None (snd s)"
    then show "keepsFrame None (snd (snd (Reset_fn (traced cli) policyKey s)))"
      using Reset_fn_keepsFrame [of "snd s" cli policyKey "fst s"] by simp
  qed simp
  then show "keepsFrame None (snd (snd (Reset IsConflict (traced cli) policyKey (w, []))))"
    by (simp add: Reset_def RetryOnConflict_def)
qed

theorem Update_Reset_frame_witness:
  "keepsFrame None (snd (snd (Update IsConflict_unwrapping (\<lambda>(w, tr). 7) (traced scripted)
      policyKey1
      ([roundOf (policyAt 2 (SetPolicySuccess 1 [] ''done'')) mixedReports 4 (Some conflict),
        roundOf (policyAt 3 (SetPolicyProgressing 2 [] ''busy'')) doneReports 3 None], []))))
   \<and> length (writes (snd (snd (Update IsConflict_unwrapping (\<lambda>(w, tr). 7) (traced scripted)
      policyKey1
      ([roundOf (policyAt 2 (SetPolicySuccess 1 [] ''done'')) mixedReports 4 (Some conflict),
        roundOf (policyAt 3 (SetPolicyProgressing 2 [] ''busy'')) doneReports 3 None], [])))))
     = 2
   \<and> keepsFrame None (snd (snd (Reset IsConflict_unwrapping (traced scripted) policyKey1
      ([roundOf (policyAt 2 (SetPolicySuccess 1 [] ''done'')) mixedReports 4 (Some conflict),
        roundOf (policyAt 3 (SetPolicyProgressing 2 [] ''busy'')) doneReports 3 None], []))))
   \<and> map fst (writes (snd (snd (Reset IsConflict_unwrapping (traced scripted) policyKey1
      ([roundOf (policyAt 2 (SetPolicySuccess 1 [] ''done'')) mixedReports 4 (Some conflict),
        roundOf (policyAt 3 (SetPolicyProgressing 2 [] ''busy'')) doneReports 3 None], [])))))
     = [policyAt 2 [], policyAt 3 []]"
proof -
  let ?w = "[roundOf (policyAt 2 (SetPolicySuccess 1 [] ''done'')) mixedReports 4 (Some conflict),
             roundOf (policyAt 3 (SetPolicyProgressing 2 [] ''busy'')) doneReports 3 None]"
  note T = Update_Reset_frame [of IsConflict_unwrapping "\<lambda>(w, tr). 7" scripted policyKey1 ?w]
  have n: "length (writes (snd (snd (Update IsConflict_unwrapping (\<lambda>(w, tr). 7)
      (traced scripted) policyKey1 (?w, []))))) = 2"
    by code_simp
  have m: "map fst (writes (snd (snd (Reset IsConflict_unwrapping (traced scripted) policyKey1
      (?w, [])))))
     = [policyAt 2 [], policyAt 3 []]"
    by code_simp
  from T n m show ?thesis by (simp only: simp_thms)
qed

subsection \<open>The decision on the counts\<close>

lemma Count_nonneg:
  "0 \<le> Available (Count enactments g)" "0 \<le> Failed (Count enactments g)"
  "0 \<le> NotMatching (Count enactments g)" "0 \<le> Aborted (Count enactments g)"
  by (simp_all add: Count_def Let_def inBucket_def)

lemma setConditions_progressing:
  assumes "Available c + Failed c + NotMatching c + Aborted c < n"
  shows "statusOf (Update_setConditions now conditions c n)
           NodeNetworkConfigurationPolicyConditionDegraded = Some ConditionUnknown
       \<and> reasonOf (Update_setConditions now conditions c n)
           NodeNetworkConfigurationPolicyConditionDegraded
           = Some NodeNetworkConfigurationPolicyConditionConfigurationProgressing
       \<and> statusOf (Update_setConditions now conditions c n)
           NodeNetworkConfigurationPolicyConditionAvailable = Some ConditionUnknown
       \<and> reasonOf (Update_setConditions now conditions c n)
           NodeNetworkConfigurationPolicyConditionAvailable
           = Some NodeNetworkConfigurationPolicyConditionConfigurationProgressing
       \<and> messageOf (Update_setConditions now conditions c n)
           NodeNetworkConfigurationPolicyConditionAvailable
           = Some (''Policy is progressing ''
                     @ fmt_d (Available c + Failed c + NotMatching c + Aborted c)
                     @ ''/'' @ fmt_d n @ '' nodes finished'')"
  using assms
  by (simp add: Update_setConditions_def Let_def SetPolicyProgressing_def Set_reads)


lemma setConditions_not_matching:
  assumes "n \<le> Available c + Failed c + NotMatching c + Aborted c"
    and "Matching c = 0"
  shows "statusOf (Update_setConditions now conditions c n)
           NodeNetworkConfigurationPolicyConditionDegraded = Some ConditionFalse
       \<and> reasonOf (Update_setConditions now conditions c n)
           NodeNetworkConfigurationPolicyConditionDegraded
           = Some NodeNetworkConfigurationPolicyConditionConfigurationNoMatchingNode
       \<and> messageOf (Update_setConditions now conditions c n)
           NodeNetworkConfigurationPolicyConditionDegraded
           = Some ''Policy does not match any node''
       \<and> statusOf (Update_setConditions now conditions c n)
           NodeNetworkConfigurationPolicyConditionAvailable = Some ConditionTrue
       \<and> reasonOf (Update_setConditions now conditions c n)
           NodeNetworkConfigurationPolicyConditionAvailable
           = Some NodeNetworkConfigurationPolicyConditionConfigurationNoMatchingNode
       \<and> messageOf (Update_setConditions now conditions c n)
           NodeNetworkConfigurationPolicyConditionAvailable
           = Some ''Policy does not match any node''"
proof -
  from assms have "\<not> Available c + Failed c + NotMatching c + Aborted c < n"
    by auto
  with assms(2) show ?thesis
    by (simp add: Update_setConditions_def Let_def SetPolicyNotMatching_def Set_reads)
qed

lemma setConditions_success:
  assumes "n \<le> Available c + Failed c + NotMatching c + Aborted c"
    and "0 < Matching c"
    and "Failed c = 0"
    and "Aborted c = 0"
  shows "statusOf (Update_setConditions now conditions c n)
           NodeNetworkConfigurationPolicyConditionDegraded = Some ConditionFalse
       \<and> reasonOf (Update_setConditions now conditions c n)
           NodeNetworkConfigurationPolicyConditionDegraded
           = Some NodeNetworkConfigurationPolicyConditionSuccessfullyConfigured
       \<and> statusOf (Update_setConditions now conditions c n)
           NodeNetworkConfigurationPolicyConditionAvailable = Some ConditionTrue
       \<and> reasonOf (Update_setConditions now conditions c n)
           NodeNetworkConfigurationPolicyConditionAvailable
           = Some NodeNetworkConfigurationPolicyConditionSuccessfullyConfigured
       \<and> messageOf (Update_setConditions now conditions c n)
           NodeNetworkConfigurationPolicyConditionAvailable
           = Some (fmt_d (Available c) @ ''/'' @ fmt_d (Available c)
                     @ '' nodes successfully configured'')"
proof -
  from assms have "\<not> Available c + Failed c + NotMatching c + Aborted c < n"
    and "Matching c \<noteq> 0"
    by auto
  with assms(3,4) show ?thesis
    by (simp add: Update_setConditions_def Let_def SetPolicySuccess_def Set_reads)
qed

subsection \<open>Every status write of a run of Update\<close>

lemma everyWrite_Get:
  "everyWrite P reads (EvGet key r # tr)
   = everyWrite P (case r of Inl err \<Rightarrow> None | Inr policy \<Rightarrow> Some policy, None, None) tr"
  by (cases reads) simp

lemma everyWrite_append_Get:
  "everyWrite P reads (tr @ EvGet key r # tr')
   = (everyWrite P reads tr \<and> everyWrite P (None, None, None) (EvGet key r # tr'))"
  by (induction P reads tr rule: everyWrite.induct) (simp_all add: everyWrite_Get)

lemma Update_fn_everyWrite:
  assumes "\<And>now policy enactments listed.
      P policy enactments listed
        (policy\<lparr>PolicyStatus := (PolicyStatus policy)
           \<lparr>Conditions :=
              Update_setConditions now (Conditions (PolicyStatus policy))
                (Count enactments (Generation policy))
                (int (length (filter agentScheduled listed)))\<rparr>\<rparr>)"
    and "everyWrite P (None, None, None) tr"
  shows "everyWrite P (None, None, None)
           (snd (snd (Update_fn Now' (traced cli) policyKey (w, tr))))"
  using assms
  by (auto simp: Update_fn_def traced_def NodesRunningNmstate_def everyWrite_append_Get
      split: prod.splits sum.splits)

lemma Update_everyWrite:
  assumes "\<And>now policy enactments listed.
      P policy enactments listed
        (policy\<lparr>PolicyStatus := (PolicyStatus policy)
           \<lparr>Conditions :=
              Update_setConditions now (Conditions (PolicyStatus policy))
                (Count enactments (Generation policy))
                (int (length (filter agentScheduled listed)))\<rparr>\<rparr>)"
  shows "everyWrite P (None, None, None)
           (snd (snd (Update IsConflict Now' (traced cli) policyKey (w, []))))"
proof -
  let ?I = "\<lambda>s :: 'a \<times> event list. everyWrite P (None, None, None) (snd s)"
  have "?I (snd (OnError DefaultRetry IsConflict (Update_fn Now' (traced cli) policyKey) None
      (w, [])))"
  proof (rule OnError_invariant [where I = ?I])
    fix s :: "'a \<times> event list"
    assume "everyWrite P (None, None, None) (snd s)"
    then show "everyWrite P (None, None, None)
        (snd (snd (Update_fn Now' (traced cli) policyKey s)))"
      using Update_fn_everyWrite [of P "snd s" Now' cli policyKey "fst s", OF assms] by simp
  qed simp
  then show ?thesis
    by (simp add: Update_def RetryOnConflict_def)
qed

lemma Update_first_attempt:
  assumes "Get cli policyKey w = (Inr policy, w1)"
    and "ListEnactments cli (MatchingLabels [(EnactmentPolicyLabel, PolicyName policy)]) w1
          = (Inr enactments, w2)"
    and "ListNodes cli w2 = (Inr listed, w3)"
    and "written = policy\<lparr>PolicyStatus := (PolicyStatus policy)
           \<lparr>Conditions :=
              Update_setConditions (Now w3) (Conditions (PolicyStatus policy))
                (Count enactments (Generation policy))
                (int (length (filter agentScheduled listed)))\<rparr>\<rparr>"
    and "StatusUpdate cli written w3 = (r, w4)"
    and "first = [EvGet policyKey (Inr policy),
                  EvList (MatchingLabels [(EnactmentPolicyLabel, PolicyName policy)])
                    (Inr enactments),
                  EvListNodes (Inr listed),
                  EvStatusUpdate written r]"
  shows "take 4 (snd (snd (Update IsConflict (\<lambda>(w, tr). Now w) (traced cli) policyKey (w, []))))
           = first
       \<and> (r = None
            \<longrightarrow> Update IsConflict (\<lambda>(w, tr). Now w) (traced cli) policyKey (w, [])
                = (None, (w4, first)))"
proof -
  let ?fn = "Update_fn (\<lambda>(w, tr). Now w) (traced cli) policyKey"
  have attempt: "?fn (w, []) = (r, (w4, first))"
    using Update_fn_writes [where Now = Now and tr = "[]", OF assms(1,2,3,4,5)]
    by (simp add: assms(6))
  have run: "Update IsConflict (\<lambda>(w, tr). Now w) (traced cli) policyKey (w, [])
      = OnError (Suc (Suc (Suc (Suc (Suc 0))))) IsConflict ?fn None (w, [])"
    by (simp add: Update_def RetryOnConflict_def DefaultRetry_Suc)
  have len: "length first = 4"
    by (simp add: assms(6))
  show ?thesis
  proof (cases r)
    case None
    with attempt run len show ?thesis by simp
  next
    case (Some err)
    show ?thesis
    proof (cases "IsConflict err")
      case False
      with attempt run len Some show ?thesis by simp
    next
      case True
      from OnError_writes [of ?fn "Suc (Suc (Suc (Suc 0)))" IsConflict "Some err" w4 first,
          OF Update_fn_attempt]
      obtain r' w' new where
        "OnError (Suc (Suc (Suc (Suc 0)))) IsConflict ?fn (Some err) (w4, first)
         = (r', (w', first @ new))"
        by blast
      with attempt run len Some True show ?thesis by simp
    qed
  qed
qed

lemma scripted_ListNodes:
  "ListNodes scripted (roundOf policy enactments n answer # rest)
   = (Inr (nodes n), roundOf policy enactments n answer # rest)"
  by (simp add: scripted_def roundOf_def)

lemma filter_nodes: "filter agentScheduled (nodes n) = nodes n"
  by (simp add: nodes_def handlerOn_def filter_map o_def)

lemma policyAt_conditions:
  "(policyAt g cs)\<lparr>PolicyStatus := (PolicyStatus (policyAt g cs))\<lparr>Conditions := cs'\<rparr>\<rparr>
   = policyAt g cs'"
  "Conditions (PolicyStatus (policyAt g cs)) = cs"
  "Generation (policyAt g cs) = g"
  "PolicyName (policyAt g cs) = ''policy1''"
  by (simp_all add: policyAt_def)

subsection \<open>The verdicts of Update\<close>

text \<open>
  C1. Whenever the finished enactments (available, failed, not matching and aborted
  together) are fewer than the nodes running the handler, Update sets Degraded and
  Available to status Unknown with reason ConfigurationProgressing, whatever the
  failed and aborted counts are, and the message of Available reads finished/nodes
  finished. This holds of the conditions computed from any counts; of every status
  write of every run of Update, in the first attempt as in any retry, the counts
  being those of the enactments listed in that attempt at the generation of the
  policy fetched in it; and when the reads of the first attempt succeed, the run
  starts with fetch, list, list and the status write of the fetched policy with
  these conditions, and ends there with no error when the store accepts the write.
  The finished enactments are the listed ones of the policy's generation that are
  not progressing.
\<close>

theorem Update_progressing:
  assumes "Available c + Failed c + NotMatching c + Aborted c < n"
  shows "statusOf (Update_setConditions now conditions c n)
           NodeNetworkConfigurationPolicyConditionDegraded
           = Some ConditionUnknown
       \<and> reasonOf (Update_setConditions now conditions c n)
           NodeNetworkConfigurationPolicyConditionDegraded
           = Some NodeNetworkConfigurationPolicyConditionConfigurationProgressing
       \<and> statusOf (Update_setConditions now conditions c n)
           NodeNetworkConfigurationPolicyConditionAvailable
           = Some ConditionUnknown
       \<and> reasonOf (Update_setConditions now conditions c n)
           NodeNetworkConfigurationPolicyConditionAvailable
           = Some NodeNetworkConfigurationPolicyConditionConfigurationProgressing
       \<and> messageOf (Update_setConditions now conditions c n)
           NodeNetworkConfigurationPolicyConditionAvailable
           = Some (''Policy is progressing ''
                   @ fmt_d (Available c + Failed c + NotMatching c + Aborted c)
                   @ ''/'' @ fmt_d n @ '' nodes finished'')
       \<and> everyWrite
           (\<lambda>fetched listedEnactments listedNodes handed.
              let k = Count listedEnactments (Generation fetched);
                  m = int (length (filter agentScheduled listedNodes))
              in Available k + Failed k + NotMatching k + Aborted k < m
                 \<longrightarrow> statusOf (Conditions (PolicyStatus handed))
                       NodeNetworkConfigurationPolicyConditionDegraded
                       = Some ConditionUnknown
                   \<and> reasonOf (Conditions (PolicyStatus handed))
                       NodeNetworkConfigurationPolicyConditionDegraded
                       = Some NodeNetworkConfigurationPolicyConditionConfigurationProgressing
                   \<and> statusOf (Conditions (PolicyStatus handed))
                       NodeNetworkConfigurationPolicyConditionAvailable
                       = Some ConditionUnknown
                   \<and> reasonOf (Conditions (PolicyStatus handed))
                       NodeNetworkConfigurationPolicyConditionAvailable
                       = Some NodeNetworkConfigurationPolicyConditionConfigurationProgressing
                   \<and> messageOf (Conditions (PolicyStatus handed))
                       NodeNetworkConfigurationPolicyConditionAvailable
                       = Some (''Policy is progressing ''
                               @ fmt_d (Available k + Failed k + NotMatching k + Aborted k)
                               @ ''/'' @ fmt_d m @ '' nodes finished''))
           (None, None, None)
           (snd (snd (Update IsConflict Now' (traced cli) policyKey (w, []))))
       \<and> (Get cli policyKey w = (Inr policy, w1)
            \<and> ListEnactments cli (MatchingLabels [(EnactmentPolicyLabel, PolicyName policy)]) w1
                = (Inr enactments, w2)
            \<and> ListNodes cli w2 = (Inr listed, w3)
            \<and> c = Count enactments (Generation policy)
            \<and> n = int (length (filter agentScheduled listed))
            \<and> written = policy\<lparr>PolicyStatus := (PolicyStatus policy)
                 \<lparr>Conditions :=
                    Update_setConditions (Now w3) (Conditions (PolicyStatus policy)) c n\<rparr>\<rparr>
            \<and> StatusUpdate cli written w3 = (r, w4)
          \<longrightarrow> take 4 (snd (snd (Update IsConflict (\<lambda>(w, tr). Now w) (traced cli) policyKey
                  (w, []))))
                = [EvGet policyKey (Inr policy),
                   EvList (MatchingLabels [(EnactmentPolicyLabel, PolicyName policy)])
                     (Inr enactments),
                   EvListNodes (Inr listed),
                   EvStatusUpdate written r]
              \<and> (r = None
                  \<longrightarrow> Update IsConflict (\<lambda>(w, tr). Now w) (traced cli) policyKey (w, [])
                      = (None, (w4,
                          [EvGet policyKey (Inr policy),
                           EvList (MatchingLabels [(EnactmentPolicyLabel, PolicyName policy)])
                             (Inr enactments),
                           EvListNodes (Inr listed),
                           EvStatusUpdate written None])))
              \<and> statusOf (Conditions (PolicyStatus written))
                  NodeNetworkConfigurationPolicyConditionDegraded
                  = Some ConditionUnknown
              \<and> reasonOf (Conditions (PolicyStatus written))
                  NodeNetworkConfigurationPolicyConditionDegraded
                  = Some NodeNetworkConfigurationPolicyConditionConfigurationProgressing
              \<and> statusOf (Conditions (PolicyStatus written))
                  NodeNetworkConfigurationPolicyConditionAvailable
                  = Some ConditionUnknown
              \<and> reasonOf (Conditions (PolicyStatus written))
                  NodeNetworkConfigurationPolicyConditionAvailable
                  = Some NodeNetworkConfigurationPolicyConditionConfigurationProgressing
              \<and> messageOf (Conditions (PolicyStatus written))
                  NodeNetworkConfigurationPolicyConditionAvailable
                  = Some (''Policy is progressing ''
                          @ fmt_d (Available c + Failed c + NotMatching c + Aborted c)
                          @ ''/'' @ fmt_d n @ '' nodes finished'')
              \<and> Available c + Failed c + NotMatching c + Aborted c
                = int (length (filter (\<lambda>e. classify e \<noteq> BucketProgressing)
                    (current enactments (Generation policy)))))"
proof -
  note verdict = setConditions_progressing [OF assms]
  have every: "everyWrite
           (\<lambda>fetched listedEnactments listedNodes handed.
              let k = Count listedEnactments (Generation fetched);
                  m = int (length (filter agentScheduled listedNodes))
              in Available k + Failed k + NotMatching k + Aborted k < m
                 \<longrightarrow> statusOf (Conditions (PolicyStatus handed))
                       NodeNetworkConfigurationPolicyConditionDegraded
                       = Some ConditionUnknown
                   \<and> reasonOf (Conditions (PolicyStatus handed))
                       NodeNetworkConfigurationPolicyConditionDegraded
                       = Some NodeNetworkConfigurationPolicyConditionConfigurationProgressing
                   \<and> statusOf (Conditions (PolicyStatus handed))
                       NodeNetworkConfigurationPolicyConditionAvailable
                       = Some ConditionUnknown
                   \<and> reasonOf (Conditions (PolicyStatus handed))
                       NodeNetworkConfigurationPolicyConditionAvailable
                       = Some NodeNetworkConfigurationPolicyConditionConfigurationProgressing
                   \<and> messageOf (Conditions (PolicyStatus handed))
                       NodeNetworkConfigurationPolicyConditionAvailable
                       = Some (''Policy is progressing ''
                               @ fmt_d (Available k + Failed k + NotMatching k + Aborted k)
                               @ ''/'' @ fmt_d m @ '' nodes finished''))
           (None, None, None)
           (snd (snd (Update IsConflict Now' (traced cli) policyKey (w, []))))"
    by (rule Update_everyWrite) (simp add: Let_def setConditions_progressing Count_nonneg)
  have first: "take 4 (snd (snd (Update IsConflict (\<lambda>(w, tr). Now w) (traced cli) policyKey
                  (w, []))))
                = [EvGet policyKey (Inr policy),
                   EvList (MatchingLabels [(EnactmentPolicyLabel, PolicyName policy)])
                     (Inr enactments),
                   EvListNodes (Inr listed),
                   EvStatusUpdate written r]
              \<and> (r = None
                  \<longrightarrow> Update IsConflict (\<lambda>(w, tr). Now w) (traced cli) policyKey (w, [])
                      = (None, (w4,
                          [EvGet policyKey (Inr policy),
                           EvList (MatchingLabels [(EnactmentPolicyLabel, PolicyName policy)])
                             (Inr enactments),
                           EvListNodes (Inr listed),
                           EvStatusUpdate written None])))
              \<and> statusOf (Conditions (PolicyStatus written))
                  NodeNetworkConfigurationPolicyConditionDegraded
                  = Some ConditionUnknown
              \<and> reasonOf (Conditions (PolicyStatus written))
                  NodeNetworkConfigurationPolicyConditionDegraded
                  = Some NodeNetworkConfigurationPolicyConditionConfigurationProgressing
              \<and> statusOf (Conditions (PolicyStatus written))
                  NodeNetworkConfigurationPolicyConditionAvailable
                  = Some ConditionUnknown
              \<and> reasonOf (Conditions (PolicyStatus written))
                  NodeNetworkConfigurationPolicyConditionAvailable
                  = Some NodeNetworkConfigurationPolicyConditionConfigurationProgressing
              \<and> messageOf (Conditions (PolicyStatus written))
                  NodeNetworkConfigurationPolicyConditionAvailable
                  = Some (''Policy is progressing ''
                          @ fmt_d (Available c + Failed c + NotMatching c + Aborted c)
                          @ ''/'' @ fmt_d n @ '' nodes finished'')
              \<and> Available c + Failed c + NotMatching c + Aborted c
                = int (length (filter (\<lambda>e. classify e \<noteq> BucketProgressing)
                    (current enactments (Generation policy))))"
    if "Get cli policyKey w = (Inr policy, w1)"
      and "ListEnactments cli (MatchingLabels [(EnactmentPolicyLabel, PolicyName policy)]) w1
            = (Inr enactments, w2)"
      and "ListNodes cli w2 = (Inr listed, w3)"
      and c: "c = Count enactments (Generation policy)"
      and n: "n = int (length (filter agentScheduled listed))"
      and written: "written = policy\<lparr>PolicyStatus := (PolicyStatus policy)
           \<lparr>Conditions :=
              Update_setConditions (Now w3) (Conditions (PolicyStatus policy)) c n\<rparr>\<rparr>"
      and "StatusUpdate cli written w3 = (r, w4)"
    using Update_first_attempt [where Now = Now and IsConflict = IsConflict,
        OF that(1,2,3) written [unfolded c n] that(7) refl]
      verdict [of "Now w3" "Conditions (PolicyStatus policy)"]
    by (auto simp: written c Count_finished)
  from verdict every first show ?thesis
    by blast
qed

theorem Update_progressing_witness:
  "Available (Count staleReports 2) + Failed (Count staleReports 2) + NotMatching (Count staleReports 2) + Aborted (Count staleReports 2) < 2
   \<and> Update IsConflict_unwrapping (\<lambda>(w, tr). 7) (traced scripted) policyKey1
       ([roundOf (policyAt 2 []) staleReports 2 None], [])
     = (None, ([],
         [EvGet policyKey1 (Inr (policyAt 2 [])),
          EvList (MatchingLabels [(EnactmentPolicyLabel, ''policy1'')]) (Inr staleReports),
          EvListNodes (Inr (nodes 2)),
          EvStatusUpdate (policyAt 2 (Update_setConditions 7 [] (Count staleReports 2) 2))
            None]))
   \<and> statusOf (Update_setConditions 7 [] (Count staleReports 2) 2)
        NodeNetworkConfigurationPolicyConditionDegraded = Some ConditionUnknown
   \<and> statusOf (Update_setConditions 7 [] (Count staleReports 2) 2)
        NodeNetworkConfigurationPolicyConditionAvailable = Some ConditionUnknown
   \<and> messageOf (Update_setConditions 7 [] (Count staleReports 2) 2)
        NodeNetworkConfigurationPolicyConditionAvailable
      = Some ''Policy is progressing 1/2 nodes finished''"
proof -
  let ?c = "Count staleReports 2"
  let ?w = "[roundOf (policyAt 2 []) staleReports 2 None]"
  let ?written = "(policyAt 2 [])\<lparr>PolicyStatus := (PolicyStatus (policyAt 2 []))
       \<lparr>Conditions := Update_setConditions 7 (Conditions (PolicyStatus (policyAt 2 []))) ?c 2\<rparr>\<rparr>"
  have h: "Available ?c + Failed ?c + NotMatching ?c + Aborted ?c < 2"
    by (simp_all add: Count_staleReports)
  note T = Update_progressing [OF h, where now = 7 and conditions = "[]" and cli = scripted
      and IsConflict = IsConflict_unwrapping and Now = "\<lambda>w. 7" and Now' = "\<lambda>s. 7"
      and policyKey = policyKey1 and w = ?w and ?w1.0 = ?w and ?w2.0 = ?w and ?w3.0 = ?w
      and ?w4.0 = "[]" and policy = "policyAt 2 []" and enactments = staleReports
      and listed = "nodes 2" and written = ?written and r = None]
  have reads: "Get scripted policyKey1 ?w = (Inr (policyAt 2 []), ?w)
      \<and> ListEnactments scripted
          (MatchingLabels [(EnactmentPolicyLabel, PolicyName (policyAt 2 []))]) ?w
          = (Inr staleReports, ?w)
      \<and> ListNodes scripted ?w = (Inr (nodes 2), ?w)
      \<and> ?c = Count staleReports (Generation (policyAt 2 []))
      \<and> (2::int) = int (length (filter agentScheduled (nodes 2)))
      \<and> ?written = ?written
      \<and> StatusUpdate scripted ?written ?w = (None, [])"
    by (simp add: scripted_calls scripted_ListNodes filter_nodes length_nodes
        policyAt_conditions)
  from T have verdict:
    "statusOf (Update_setConditions 7 [] ?c 2)
       NodeNetworkConfigurationPolicyConditionDegraded = Some ConditionUnknown"
    "statusOf (Update_setConditions 7 [] ?c 2)
       NodeNetworkConfigurationPolicyConditionAvailable = Some ConditionUnknown"
    "messageOf (Update_setConditions 7 [] ?c 2)
       NodeNetworkConfigurationPolicyConditionAvailable
     = Some (''Policy is progressing ''
               @ fmt_d (Available ?c + Failed ?c + NotMatching ?c + Aborted ?c)
               @ ''/'' @ fmt_d 2 @ '' nodes finished'')"
    by blast+
  from T reads have run:
    "Update IsConflict_unwrapping (\<lambda>(w, tr). 7) (traced scripted) policyKey1 (?w, [])
     = (None, ([],
         [EvGet policyKey1 (Inr (policyAt 2 [])),
          EvList (MatchingLabels [(EnactmentPolicyLabel, PolicyName (policyAt 2 []))])
            (Inr staleReports),
          EvListNodes (Inr (nodes 2)),
          EvStatusUpdate ?written None]))"
    by blast
  have msg: "fmt_d (Available ?c + Failed ?c + NotMatching ?c + Aborted ?c) = ''1''"
    by (simp_all add: Count_staleReports fmt_d_small)
  show ?thesis
    using h verdict by (simp add: run msg fmt_d_small policyAt_conditions)
qed



text \<open>
  C3. Whenever the finished enactments are at least as many as the nodes running the
  handler and the matching count is zero, Update sets Degraded to False and Available
  to True, both with reason ConfigurationNoMatchingNode and the message "Policy does
  not match any node", whatever the failed and aborted counts are: the check comes
  before the one on failures. This holds of the conditions computed from any counts;
  of every status write of every run of Update, in the first attempt as in any retry,
  the counts being those of the enactments listed in that attempt at the generation
  of the policy fetched in it; and when the reads of the first attempt succeed, the
  run starts with fetch, list, list and the status write of the fetched policy with
  these conditions, and ends there with no error when the store accepts the write.
\<close>

theorem Update_not_matching:
  assumes "n \<le> Available c + Failed c + NotMatching c + Aborted c"
    and "Matching c = 0"
  shows "statusOf (Update_setConditions now conditions c n)
           NodeNetworkConfigurationPolicyConditionDegraded
           = Some ConditionFalse
       \<and> reasonOf (Update_setConditions now conditions c n)
           NodeNetworkConfigurationPolicyConditionDegraded
           = Some NodeNetworkConfigurationPolicyConditionConfigurationNoMatchingNode
       \<and> messageOf (Update_setConditions now conditions c n)
           NodeNetworkConfigurationPolicyConditionDegraded
           = Some ''Policy does not match any node''
       \<and> statusOf (Update_setConditions now conditions c n)
           NodeNetworkConfigurationPolicyConditionAvailable
           = Some ConditionTrue
       \<and> reasonOf (Update_setConditions now conditions c n)
           NodeNetworkConfigurationPolicyConditionAvailable
           = Some NodeNetworkConfigurationPolicyConditionConfigurationNoMatchingNode
       \<and> messageOf (Update_setConditions now conditions c n)
           NodeNetworkConfigurationPolicyConditionAvailable
           = Some ''Policy does not match any node''
       \<and> everyWrite
           (\<lambda>fetched listedEnactments listedNodes handed.
              let k = Count listedEnactments (Generation fetched);
                  m = int (length (filter agentScheduled listedNodes))
              in m \<le> Available k + Failed k + NotMatching k + Aborted k \<and> Matching k = 0
                 \<longrightarrow> statusOf (Conditions (PolicyStatus handed))
                       NodeNetworkConfigurationPolicyConditionDegraded
                       = Some ConditionFalse
                   \<and> reasonOf (Conditions (PolicyStatus handed))
                       NodeNetworkConfigurationPolicyConditionDegraded
                       = Some NodeNetworkConfigurationPolicyConditionConfigurationNoMatchingNode
                   \<and> messageOf (Conditions (PolicyStatus handed))
                       NodeNetworkConfigurationPolicyConditionDegraded
                       = Some ''Policy does not match any node''
                   \<and> statusOf (Conditions (PolicyStatus handed))
                       NodeNetworkConfigurationPolicyConditionAvailable
                       = Some ConditionTrue
                   \<and> reasonOf (Conditions (PolicyStatus handed))
                       NodeNetworkConfigurationPolicyConditionAvailable
                       = Some NodeNetworkConfigurationPolicyConditionConfigurationNoMatchingNode
                   \<and> messageOf (Conditions (PolicyStatus handed))
                       NodeNetworkConfigurationPolicyConditionAvailable
                       = Some ''Policy does not match any node'')
           (None, None, None)
           (snd (snd (Update IsConflict Now' (traced cli) policyKey (w, []))))
       \<and> (Get cli policyKey w = (Inr policy, w1)
            \<and> ListEnactments cli (MatchingLabels [(EnactmentPolicyLabel, PolicyName policy)]) w1
                = (Inr enactments, w2)
            \<and> ListNodes cli w2 = (Inr listed, w3)
            \<and> c = Count enactments (Generation policy)
            \<and> n = int (length (filter agentScheduled listed))
            \<and> written = policy\<lparr>PolicyStatus := (PolicyStatus policy)
                 \<lparr>Conditions :=
                    Update_setConditions (Now w3) (Conditions (PolicyStatus policy)) c n\<rparr>\<rparr>
            \<and> StatusUpdate cli written w3 = (r, w4)
          \<longrightarrow> take 4 (snd (snd (Update IsConflict (\<lambda>(w, tr). Now w) (traced cli) policyKey
                  (w, []))))
                = [EvGet policyKey (Inr policy),
                   EvList (MatchingLabels [(EnactmentPolicyLabel, PolicyName policy)])
                     (Inr enactments),
                   EvListNodes (Inr listed),
                   EvStatusUpdate written r]
              \<and> (r = None
                  \<longrightarrow> Update IsConflict (\<lambda>(w, tr). Now w) (traced cli) policyKey (w, [])
                      = (None, (w4,
                          [EvGet policyKey (Inr policy),
                           EvList (MatchingLabels [(EnactmentPolicyLabel, PolicyName policy)])
                             (Inr enactments),
                           EvListNodes (Inr listed),
                           EvStatusUpdate written None])))
              \<and> statusOf (Conditions (PolicyStatus written))
                  NodeNetworkConfigurationPolicyConditionDegraded
                  = Some ConditionFalse
              \<and> reasonOf (Conditions (PolicyStatus written))
                  NodeNetworkConfigurationPolicyConditionDegraded
                  = Some NodeNetworkConfigurationPolicyConditionConfigurationNoMatchingNode
              \<and> messageOf (Conditions (PolicyStatus written))
                  NodeNetworkConfigurationPolicyConditionDegraded
                  = Some ''Policy does not match any node''
              \<and> statusOf (Conditions (PolicyStatus written))
                  NodeNetworkConfigurationPolicyConditionAvailable
                  = Some ConditionTrue
              \<and> reasonOf (Conditions (PolicyStatus written))
                  NodeNetworkConfigurationPolicyConditionAvailable
                  = Some NodeNetworkConfigurationPolicyConditionConfigurationNoMatchingNode
              \<and> messageOf (Conditions (PolicyStatus written))
                  NodeNetworkConfigurationPolicyConditionAvailable
                  = Some ''Policy does not match any node'')"
proof -
  note verdict = setConditions_not_matching [OF assms]
  have every: "everyWrite
           (\<lambda>fetched listedEnactments listedNodes handed.
              let k = Count listedEnactments (Generation fetched);
                  m = int (length (filter agentScheduled listedNodes))
              in m \<le> Available k + Failed k + NotMatching k + Aborted k \<and> Matching k = 0
                 \<longrightarrow> statusOf (Conditions (PolicyStatus handed))
                       NodeNetworkConfigurationPolicyConditionDegraded
                       = Some ConditionFalse
                   \<and> reasonOf (Conditions (PolicyStatus handed))
                       NodeNetworkConfigurationPolicyConditionDegraded
                       = Some NodeNetworkConfigurationPolicyConditionConfigurationNoMatchingNode
                   \<and> messageOf (Conditions (PolicyStatus handed))
                       NodeNetworkConfigurationPolicyConditionDegraded
                       = Some ''Policy does not match any node''
                   \<and> statusOf (Conditions (PolicyStatus handed))
                       NodeNetworkConfigurationPolicyConditionAvailable
                       = Some ConditionTrue
                   \<and> reasonOf (Conditions (PolicyStatus handed))
                       NodeNetworkConfigurationPolicyConditionAvailable
                       = Some NodeNetworkConfigurationPolicyConditionConfigurationNoMatchingNode
                   \<and> messageOf (Conditions (PolicyStatus handed))
                       NodeNetworkConfigurationPolicyConditionAvailable
                       = Some ''Policy does not match any node'')
           (None, None, None)
           (snd (snd (Update IsConflict Now' (traced cli) policyKey (w, []))))"
    by (rule Update_everyWrite) (simp add: Let_def setConditions_not_matching Count_nonneg)
  have first: "take 4 (snd (snd (Update IsConflict (\<lambda>(w, tr). Now w) (traced cli) policyKey
                  (w, []))))
                = [EvGet policyKey (Inr policy),
                   EvList (MatchingLabels [(EnactmentPolicyLabel, PolicyName policy)])
                     (Inr enactments),
                   EvListNodes (Inr listed),
                   EvStatusUpdate written r]
              \<and> (r = None
                  \<longrightarrow> Update IsConflict (\<lambda>(w, tr). Now w) (traced cli) policyKey (w, [])
                      = (None, (w4,
                          [EvGet policyKey (Inr policy),
                           EvList (MatchingLabels [(EnactmentPolicyLabel, PolicyName policy)])
                             (Inr enactments),
                           EvListNodes (Inr listed),
                           EvStatusUpdate written None])))
              \<and> statusOf (Conditions (PolicyStatus written))
                  NodeNetworkConfigurationPolicyConditionDegraded
                  = Some ConditionFalse
              \<and> reasonOf (Conditions (PolicyStatus written))
                  NodeNetworkConfigurationPolicyConditionDegraded
                  = Some NodeNetworkConfigurationPolicyConditionConfigurationNoMatchingNode
              \<and> messageOf (Conditions (PolicyStatus written))
                  NodeNetworkConfigurationPolicyConditionDegraded
                  = Some ''Policy does not match any node''
              \<and> statusOf (Conditions (PolicyStatus written))
                  NodeNetworkConfigurationPolicyConditionAvailable
                  = Some ConditionTrue
              \<and> reasonOf (Conditions (PolicyStatus written))
                  NodeNetworkConfigurationPolicyConditionAvailable
                  = Some NodeNetworkConfigurationPolicyConditionConfigurationNoMatchingNode
              \<and> messageOf (Conditions (PolicyStatus written))
                  NodeNetworkConfigurationPolicyConditionAvailable
                  = Some ''Policy does not match any node''"
    if "Get cli policyKey w = (Inr policy, w1)"
      and "ListEnactments cli (MatchingLabels [(EnactmentPolicyLabel, PolicyName policy)]) w1
            = (Inr enactments, w2)"
      and "ListNodes cli w2 = (Inr listed, w3)"
      and c: "c = Count enactments (Generation policy)"
      and n: "n = int (length (filter agentScheduled listed))"
      and written: "written = policy\<lparr>PolicyStatus := (PolicyStatus policy)
           \<lparr>Conditions :=
              Update_setConditions (Now w3) (Conditions (PolicyStatus policy)) c n\<rparr>\<rparr>"
      and "StatusUpdate cli written w3 = (r, w4)"
    using Update_first_attempt [where Now = Now and IsConflict = IsConflict,
        OF that(1,2,3) written [unfolded c n] that(7) refl]
      verdict [of "Now w3" "Conditions (PolicyStatus policy)"]
    by (auto simp: written c)
  from verdict every first show ?thesis
    by blast
qed

theorem Update_not_matching_witness:
  "(2::int) \<le> Available (Count noMatchReports 2) + Failed (Count noMatchReports 2) + NotMatching (Count noMatchReports 2) + Aborted (Count noMatchReports 2)
   \<and> Matching (Count noMatchReports 2) = 0
   \<and> Update IsConflict_unwrapping (\<lambda>(w, tr). 7) (traced scripted) policyKey1
       ([roundOf (policyAt 2 []) noMatchReports 2 None], [])
     = (None, ([],
         [EvGet policyKey1 (Inr (policyAt 2 [])),
          EvList (MatchingLabels [(EnactmentPolicyLabel, ''policy1'')]) (Inr noMatchReports),
          EvListNodes (Inr (nodes 2)),
          EvStatusUpdate (policyAt 2 (Update_setConditions 7 [] (Count noMatchReports 2) 2))
            None]))
   \<and> statusOf (Update_setConditions 7 [] (Count noMatchReports 2) 2)
        NodeNetworkConfigurationPolicyConditionDegraded = Some ConditionFalse
   \<and> statusOf (Update_setConditions 7 [] (Count noMatchReports 2) 2)
        NodeNetworkConfigurationPolicyConditionAvailable = Some ConditionTrue
   \<and> messageOf (Update_setConditions 7 [] (Count noMatchReports 2) 2)
        NodeNetworkConfigurationPolicyConditionAvailable
      = Some ''Policy does not match any node''
   \<and> reasonOf (Update_setConditions 7 []
        \<lparr>Available = 0, Failed = 1, NotMatching = 1, Aborted = 1, Matching = 0,
          Progressing = 0\<rparr> 2)
        NodeNetworkConfigurationPolicyConditionDegraded
      = Some NodeNetworkConfigurationPolicyConditionConfigurationNoMatchingNode"
proof -
  let ?c = "Count noMatchReports 2"
  let ?w = "[roundOf (policyAt 2 []) noMatchReports 2 None]"
  let ?written = "(policyAt 2 [])\<lparr>PolicyStatus := (PolicyStatus (policyAt 2 []))
       \<lparr>Conditions := Update_setConditions 7 (Conditions (PolicyStatus (policyAt 2 []))) ?c 2\<rparr>\<rparr>"
  have h: "(2::int) \<le> Available ?c + Failed ?c + NotMatching ?c + Aborted ?c" "Matching ?c = 0"
    by (simp_all add: Count_noMatchReports)
  note T = Update_not_matching [OF h, where now = 7 and conditions = "[]" and cli = scripted
      and IsConflict = IsConflict_unwrapping and Now = "\<lambda>w. 7" and Now' = "\<lambda>s. 7"
      and policyKey = policyKey1 and w = ?w and ?w1.0 = ?w and ?w2.0 = ?w and ?w3.0 = ?w
      and ?w4.0 = "[]" and policy = "policyAt 2 []" and enactments = noMatchReports
      and listed = "nodes 2" and written = ?written and r = None]
  have reads: "Get scripted policyKey1 ?w = (Inr (policyAt 2 []), ?w)
      \<and> ListEnactments scripted
          (MatchingLabels [(EnactmentPolicyLabel, PolicyName (policyAt 2 []))]) ?w
          = (Inr noMatchReports, ?w)
      \<and> ListNodes scripted ?w = (Inr (nodes 2), ?w)
      \<and> ?c = Count noMatchReports (Generation (policyAt 2 []))
      \<and> (2::int) = int (length (filter agentScheduled (nodes 2)))
      \<and> ?written = ?written
      \<and> StatusUpdate scripted ?written ?w = (None, [])"
    by (simp add: scripted_calls scripted_ListNodes filter_nodes length_nodes
        policyAt_conditions)
  from T have verdict:
    "statusOf (Update_setConditions 7 [] ?c 2)
       NodeNetworkConfigurationPolicyConditionDegraded = Some ConditionFalse"
    "statusOf (Update_setConditions 7 [] ?c 2)
       NodeNetworkConfigurationPolicyConditionAvailable = Some ConditionTrue"
    "messageOf (Update_setConditions 7 [] ?c 2)
       NodeNetworkConfigurationPolicyConditionAvailable
     = Some (''Policy does not match any node'')"
    by blast+
  from T reads have run:
    "Update IsConflict_unwrapping (\<lambda>(w, tr). 7) (traced scripted) policyKey1 (?w, [])
     = (None, ([],
         [EvGet policyKey1 (Inr (policyAt 2 [])),
          EvList (MatchingLabels [(EnactmentPolicyLabel, PolicyName (policyAt 2 []))])
            (Inr noMatchReports),
          EvListNodes (Inr (nodes 2)),
          EvStatusUpdate ?written None]))"
    by blast
  have msg: "Matching ?c = 0"
    by (simp_all add: Count_noMatchReports fmt_d_small)
  let ?d = "\<lparr>Available = 0, Failed = 1, NotMatching = 1, Aborted = 1, Matching = 0,
             Progressing = 0\<rparr>"
  have k: "(2::int) \<le> Available ?d + Failed ?d + NotMatching ?d + Aborted ?d"
    "Matching ?d = 0"
    by simp_all
  have priority:
    "reasonOf (Update_setConditions 7 [] ?d 2)
       NodeNetworkConfigurationPolicyConditionDegraded
     = Some NodeNetworkConfigurationPolicyConditionConfigurationNoMatchingNode"
    by (rule Update_not_matching [OF k, where now = 7 and conditions = "[]",
          THEN conjunct2, THEN conjunct1])
  show ?thesis
    using h verdict priority by (simp add: run msg fmt_d_small policyAt_conditions)
qed

text \<open>
  C4. Whenever the finished enactments are at least as many as the nodes running the
  handler, the matching count is positive and the failed and aborted counts are both
  zero, Update sets Degraded to False and Available to True, both with reason
  SuccessfullyConfigured, and the message of Available reads available/available
  nodes successfully configured, the available count standing on both sides of the
  stroke. This holds of the conditions computed from any counts; of every status
  write of every run of Update, in the first attempt as in any retry, the counts
  being those of the enactments listed in that attempt at the generation of the
  policy fetched in it; and when the reads of the first attempt succeed, the run
  starts with fetch, list, list and the status write of the fetched policy with
  these conditions, and ends there with no error when the store accepts the write.
\<close>

theorem Update_success:
  assumes "n \<le> Available c + Failed c + NotMatching c + Aborted c"
    and "0 < Matching c"
    and "Failed c = 0"
    and "Aborted c = 0"
  shows "statusOf (Update_setConditions now conditions c n)
           NodeNetworkConfigurationPolicyConditionDegraded
           = Some ConditionFalse
       \<and> reasonOf (Update_setConditions now conditions c n)
           NodeNetworkConfigurationPolicyConditionDegraded
           = Some NodeNetworkConfigurationPolicyConditionSuccessfullyConfigured
       \<and> statusOf (Update_setConditions now conditions c n)
           NodeNetworkConfigurationPolicyConditionAvailable
           = Some ConditionTrue
       \<and> reasonOf (Update_setConditions now conditions c n)
           NodeNetworkConfigurationPolicyConditionAvailable
           = Some NodeNetworkConfigurationPolicyConditionSuccessfullyConfigured
       \<and> messageOf (Update_setConditions now conditions c n)
           NodeNetworkConfigurationPolicyConditionAvailable
           = Some (fmt_d (Available c) @ ''/'' @ fmt_d (Available c)
                   @ '' nodes successfully configured'')
       \<and> everyWrite
           (\<lambda>fetched listedEnactments listedNodes handed.
              let k = Count listedEnactments (Generation fetched);
                  m = int (length (filter agentScheduled listedNodes))
              in m \<le> Available k + Failed k + NotMatching k + Aborted k
                 \<and> 0 < Matching k \<and> Failed k = 0 \<and> Aborted k = 0
                 \<longrightarrow> statusOf (Conditions (PolicyStatus handed))
                       NodeNetworkConfigurationPolicyConditionDegraded
                       = Some ConditionFalse
                   \<and> reasonOf (Conditions (PolicyStatus handed))
                       NodeNetworkConfigurationPolicyConditionDegraded
                       = Some NodeNetworkConfigurationPolicyConditionSuccessfullyConfigured
                   \<and> statusOf (Conditions (PolicyStatus handed))
                       NodeNetworkConfigurationPolicyConditionAvailable
                       = Some ConditionTrue
                   \<and> reasonOf (Conditions (PolicyStatus handed))
                       NodeNetworkConfigurationPolicyConditionAvailable
                       = Some NodeNetworkConfigurationPolicyConditionSuccessfullyConfigured
                   \<and> messageOf (Conditions (PolicyStatus handed))
                       NodeNetworkConfigurationPolicyConditionAvailable
                       = Some (fmt_d (Available k) @ ''/'' @ fmt_d (Available k)
                               @ '' nodes successfully configured''))
           (None, None, None)
           (snd (snd (Update IsConflict Now' (traced cli) policyKey (w, []))))
       \<and> (Get cli policyKey w = (Inr policy, w1)
            \<and> ListEnactments cli (MatchingLabels [(EnactmentPolicyLabel, PolicyName policy)]) w1
                = (Inr enactments, w2)
            \<and> ListNodes cli w2 = (Inr listed, w3)
            \<and> c = Count enactments (Generation policy)
            \<and> n = int (length (filter agentScheduled listed))
            \<and> written = policy\<lparr>PolicyStatus := (PolicyStatus policy)
                 \<lparr>Conditions :=
                    Update_setConditions (Now w3) (Conditions (PolicyStatus policy)) c n\<rparr>\<rparr>
            \<and> StatusUpdate cli written w3 = (r, w4)
          \<longrightarrow> take 4 (snd (snd (Update IsConflict (\<lambda>(w, tr). Now w) (traced cli) policyKey
                  (w, []))))
                = [EvGet policyKey (Inr policy),
                   EvList (MatchingLabels [(EnactmentPolicyLabel, PolicyName policy)])
                     (Inr enactments),
                   EvListNodes (Inr listed),
                   EvStatusUpdate written r]
              \<and> (r = None
                  \<longrightarrow> Update IsConflict (\<lambda>(w, tr). Now w) (traced cli) policyKey (w, [])
                      = (None, (w4,
                          [EvGet policyKey (Inr policy),
                           EvList (MatchingLabels [(EnactmentPolicyLabel, PolicyName policy)])
                             (Inr enactments),
                           EvListNodes (Inr listed),
                           EvStatusUpdate written None])))
              \<and> statusOf (Conditions (PolicyStatus written))
                  NodeNetworkConfigurationPolicyConditionDegraded
                  = Some ConditionFalse
              \<and> reasonOf (Conditions (PolicyStatus written))
                  NodeNetworkConfigurationPolicyConditionDegraded
                  = Some NodeNetworkConfigurationPolicyConditionSuccessfullyConfigured
              \<and> statusOf (Conditions (PolicyStatus written))
                  NodeNetworkConfigurationPolicyConditionAvailable
                  = Some ConditionTrue
              \<and> reasonOf (Conditions (PolicyStatus written))
                  NodeNetworkConfigurationPolicyConditionAvailable
                  = Some NodeNetworkConfigurationPolicyConditionSuccessfullyConfigured
              \<and> messageOf (Conditions (PolicyStatus written))
                  NodeNetworkConfigurationPolicyConditionAvailable
                  = Some (fmt_d (Available c) @ ''/'' @ fmt_d (Available c)
                          @ '' nodes successfully configured''))"
proof -
  note verdict = setConditions_success [OF assms]
  have every: "everyWrite
           (\<lambda>fetched listedEnactments listedNodes handed.
              let k = Count listedEnactments (Generation fetched);
                  m = int (length (filter agentScheduled listedNodes))
              in m \<le> Available k + Failed k + NotMatching k + Aborted k
                 \<and> 0 < Matching k \<and> Failed k = 0 \<and> Aborted k = 0
                 \<longrightarrow> statusOf (Conditions (PolicyStatus handed))
                       NodeNetworkConfigurationPolicyConditionDegraded
                       = Some ConditionFalse
                   \<and> reasonOf (Conditions (PolicyStatus handed))
                       NodeNetworkConfigurationPolicyConditionDegraded
                       = Some NodeNetworkConfigurationPolicyConditionSuccessfullyConfigured
                   \<and> statusOf (Conditions (PolicyStatus handed))
                       NodeNetworkConfigurationPolicyConditionAvailable
                       = Some ConditionTrue
                   \<and> reasonOf (Conditions (PolicyStatus handed))
                       NodeNetworkConfigurationPolicyConditionAvailable
                       = Some NodeNetworkConfigurationPolicyConditionSuccessfullyConfigured
                   \<and> messageOf (Conditions (PolicyStatus handed))
                       NodeNetworkConfigurationPolicyConditionAvailable
                       = Some (fmt_d (Available k) @ ''/'' @ fmt_d (Available k)
                               @ '' nodes successfully configured''))
           (None, None, None)
           (snd (snd (Update IsConflict Now' (traced cli) policyKey (w, []))))"
    by (rule Update_everyWrite) (simp add: Let_def setConditions_success Count_nonneg)
  have first: "take 4 (snd (snd (Update IsConflict (\<lambda>(w, tr). Now w) (traced cli) policyKey
                  (w, []))))
                = [EvGet policyKey (Inr policy),
                   EvList (MatchingLabels [(EnactmentPolicyLabel, PolicyName policy)])
                     (Inr enactments),
                   EvListNodes (Inr listed),
                   EvStatusUpdate written r]
              \<and> (r = None
                  \<longrightarrow> Update IsConflict (\<lambda>(w, tr). Now w) (traced cli) policyKey (w, [])
                      = (None, (w4,
                          [EvGet policyKey (Inr policy),
                           EvList (MatchingLabels [(EnactmentPolicyLabel, PolicyName policy)])
                             (Inr enactments),
                           EvListNodes (Inr listed),
                           EvStatusUpdate written None])))
              \<and> statusOf (Conditions (PolicyStatus written))
                  NodeNetworkConfigurationPolicyConditionDegraded
                  = Some ConditionFalse
              \<and> reasonOf (Conditions (PolicyStatus written))
                  NodeNetworkConfigurationPolicyConditionDegraded
                  = Some NodeNetworkConfigurationPolicyConditionSuccessfullyConfigured
              \<and> statusOf (Conditions (PolicyStatus written))
                  NodeNetworkConfigurationPolicyConditionAvailable
                  = Some ConditionTrue
              \<and> reasonOf (Conditions (PolicyStatus written))
                  NodeNetworkConfigurationPolicyConditionAvailable
                  = Some NodeNetworkConfigurationPolicyConditionSuccessfullyConfigured
              \<and> messageOf (Conditions (PolicyStatus written))
                  NodeNetworkConfigurationPolicyConditionAvailable
                  = Some (fmt_d (Available c) @ ''/'' @ fmt_d (Available c)
                          @ '' nodes successfully configured'')"
    if "Get cli policyKey w = (Inr policy, w1)"
      and "ListEnactments cli (MatchingLabels [(EnactmentPolicyLabel, PolicyName policy)]) w1
            = (Inr enactments, w2)"
      and "ListNodes cli w2 = (Inr listed, w3)"
      and c: "c = Count enactments (Generation policy)"
      and n: "n = int (length (filter agentScheduled listed))"
      and written: "written = policy\<lparr>PolicyStatus := (PolicyStatus policy)
           \<lparr>Conditions :=
              Update_setConditions (Now w3) (Conditions (PolicyStatus policy)) c n\<rparr>\<rparr>"
      and "StatusUpdate cli written w3 = (r, w4)"
    using Update_first_attempt [where Now = Now and IsConflict = IsConflict,
        OF that(1,2,3) written [unfolded c n] that(7) refl]
      verdict [of "Now w3" "Conditions (PolicyStatus policy)"]
    by (auto simp: written c)
  from verdict every first show ?thesis
    by blast
qed

theorem Update_success_witness:
  "(3::int) \<le> Available (Count doneReports 2) + Failed (Count doneReports 2) + NotMatching (Count doneReports 2) + Aborted (Count doneReports 2)
   \<and> 0 < Matching (Count doneReports 2)
   \<and> Failed (Count doneReports 2) = 0
   \<and> Aborted (Count doneReports 2) = 0
   \<and> Update IsConflict_unwrapping (\<lambda>(w, tr). 7) (traced scripted) policyKey1
       ([roundOf (policyAt 2 []) doneReports 3 None], [])
     = (None, ([],
         [EvGet policyKey1 (Inr (policyAt 2 [])),
          EvList (MatchingLabels [(EnactmentPolicyLabel, ''policy1'')]) (Inr doneReports),
          EvListNodes (Inr (nodes 3)),
          EvStatusUpdate (policyAt 2 (Update_setConditions 7 [] (Count doneReports 2) 3))
            None]))
   \<and> statusOf (Update_setConditions 7 [] (Count doneReports 2) 3)
        NodeNetworkConfigurationPolicyConditionDegraded = Some ConditionFalse
   \<and> statusOf (Update_setConditions 7 [] (Count doneReports 2) 3)
        NodeNetworkConfigurationPolicyConditionAvailable = Some ConditionTrue
   \<and> messageOf (Update_setConditions 7 [] (Count doneReports 2) 3)
        NodeNetworkConfigurationPolicyConditionAvailable
      = Some ''3/3 nodes successfully configured''"
proof -
  let ?c = "Count doneReports 2"
  let ?w = "[roundOf (policyAt 2 []) doneReports 3 None]"
  let ?written = "(policyAt 2 [])\<lparr>PolicyStatus := (PolicyStatus (policyAt 2 []))
       \<lparr>Conditions := Update_setConditions 7 (Conditions (PolicyStatus (policyAt 2 []))) ?c 3\<rparr>\<rparr>"
  have h: "(3::int) \<le> Available ?c + Failed ?c + NotMatching ?c + Aborted ?c" "0 < Matching ?c" "Failed ?c = 0" "Aborted ?c = 0"
    by (simp_all add: Count_doneReports)
  note T = Update_success [OF h, where now = 7 and conditions = "[]" and cli = scripted
      and IsConflict = IsConflict_unwrapping and Now = "\<lambda>w. 7" and Now' = "\<lambda>s. 7"
      and policyKey = policyKey1 and w = ?w and ?w1.0 = ?w and ?w2.0 = ?w and ?w3.0 = ?w
      and ?w4.0 = "[]" and policy = "policyAt 2 []" and enactments = doneReports
      and listed = "nodes 3" and written = ?written and r = None]
  have reads: "Get scripted policyKey1 ?w = (Inr (policyAt 2 []), ?w)
      \<and> ListEnactments scripted
          (MatchingLabels [(EnactmentPolicyLabel, PolicyName (policyAt 2 []))]) ?w
          = (Inr doneReports, ?w)
      \<and> ListNodes scripted ?w = (Inr (nodes 3), ?w)
      \<and> ?c = Count doneReports (Generation (policyAt 2 []))
      \<and> (3::int) = int (length (filter agentScheduled (nodes 3)))
      \<and> ?written = ?written
      \<and> StatusUpdate scripted ?written ?w = (None, [])"
    by (simp add: scripted_calls scripted_ListNodes filter_nodes length_nodes
        policyAt_conditions)
  from T have verdict:
    "statusOf (Update_setConditions 7 [] ?c 3)
       NodeNetworkConfigurationPolicyConditionDegraded = Some ConditionFalse"
    "statusOf (Update_setConditions 7 [] ?c 3)
       NodeNetworkConfigurationPolicyConditionAvailable = Some ConditionTrue"
    "messageOf (Update_setConditions 7 [] ?c 3)
       NodeNetworkConfigurationPolicyConditionAvailable
     = Some (fmt_d (Available ?c) @ ''/'' @ fmt_d (Available ?c)
               @ '' nodes successfully configured'')"
    by blast+
  from T reads have run:
    "Update IsConflict_unwrapping (\<lambda>(w, tr). 7) (traced scripted) policyKey1 (?w, [])
     = (None, ([],
         [EvGet policyKey1 (Inr (policyAt 2 [])),
          EvList (MatchingLabels [(EnactmentPolicyLabel, PolicyName (policyAt 2 []))])
            (Inr doneReports),
          EvListNodes (Inr (nodes 3)),
          EvStatusUpdate ?written None]))"
    by blast
  have msg: "fmt_d (Available ?c) = ''3''"
    by (simp_all add: Count_doneReports fmt_d_small)
  show ?thesis
    using h verdict by (simp add: run msg fmt_d_small policyAt_conditions)
qed

end
